theory Spec2Isabelle
  imports Main "HOL-Library.Multiset"
begin

section \<open>Python values and errors\<close>

text \<open>
  The evaluator of \<^verbatim>\<open>src/ccobra_bench/evaluator.py\<close> handles dynamically typed cell
  values of a table: strings, numbers, missing values, the nested lists that decoding
  produces, and the \<^verbatim>\<open>ccobra.data.Item\<close> objects it builds from five fields
  (identifier, domain, task, response type, choices).
\<close>

datatype pyval =
    PNone
  | PInt int
  | PStr string
  | PList "pyval list"
  | Item int string pyval string pyval

text \<open>
  Every exception the modelled code can raise is a value. Both applicability failures
  are \<^verbatim>\<open>ValueError\<close>s in the source (lines 103 and 109); they carry the model's
  name and the set of missing values. \<open>ValueError_remove\<close> is the \<^verbatim>\<open>ValueError\<close>
  of \<^verbatim>\<open>list.remove\<close> on an absent element, \<open>FileNotFoundError\<close> what
  \<^verbatim>\<open>os.getcwd\<close> and \<^verbatim>\<open>os.chdir\<close> raise on a directory that does not exist.
\<close>

datatype error =
    AttributeError
  | TypeError
  | KeyError string
  | ValueError_domains string "string set"
  | ValueError_response_types string "string set"
  | ValueError_remove
  | FileNotFoundError
  | ModelDiscoveryError

definition bind_res :: "error + 'a \<Rightarrow> ('a \<Rightarrow> error + 'b) \<Rightarrow> error + 'b" where
  "bind_res r f = (case r of Inl e \<Rightarrow> Inl e | Inr v \<Rightarrow> f v)"

text \<open>A list comprehension whose body may raise: the first failure ends it.\<close>

fun map_res :: "('a \<Rightarrow> error + 'b) \<Rightarrow> 'a list \<Rightarrow> error + 'b list" where
  "map_res f [] = Inr []"
| "map_res f (x # xs) =
     (case f x of
        Inl e \<Rightarrow> Inl e
      | Inr y \<Rightarrow> (case map_res f xs of Inl e \<Rightarrow> Inl e | Inr ys \<Rightarrow> Inr (y # ys)))"

section \<open>Response decoding (lines 131-135 and 163-167)\<close>

text \<open>
  \<^verbatim>\<open>str.split(sep)\<close> for a separator of one character: the pieces between the
  separators, empty pieces kept, never an empty list.
\<close>

fun str_split :: "char \<Rightarrow> string \<Rightarrow> string list" where
  "str_split sep [] = [[]]"
| "str_split sep (c # cs) =
     (if c = sep then [] # str_split sep cs
      else (case str_split sep cs of
              t # ts \<Rightarrow> (c # t) # ts
            | [] \<Rightarrow> [[c]]))"

text \<open>
  \<^verbatim>\<open>x.split(sep)\<close> as a method call on a value: only a string has the method, every
  other value raises \<^verbatim>\<open>AttributeError\<close>.
\<close>

fun split_method :: "pyval \<Rightarrow> char \<Rightarrow> error + pyval" where
  "split_method (PStr s) sep = Inr (PList (map PStr (str_split sep s)))"
| "split_method PNone sep = Inl AttributeError"
| "split_method (PInt i) sep = Inl AttributeError"
| "split_method (PList xs) sep = Inl AttributeError"
| "split_method (Item i d t r c) sep = Inl AttributeError"

text \<open>
  \<^verbatim>\<open>[f(x) for x in v]\<close>: a list is iterated by element, a string by character, and
  the other values are not iterable.
\<close>

fun comprehension :: "(pyval \<Rightarrow> error + pyval) \<Rightarrow> pyval \<Rightarrow> error + pyval" where
  "comprehension f (PList xs) = bind_res (map_res f xs) (\<lambda>ys. Inr (PList ys))"
| "comprehension f (PStr s) = bind_res (map_res f (map (\<lambda>c. PStr [c]) s)) (\<lambda>ys. Inr (PList ys))"
| "comprehension f PNone = Inl TypeError"
| "comprehension f (PInt i) = Inl TypeError"
| "comprehension f (Item i d t r c) = Inl TypeError"

fun isinstance_str :: "pyval \<Rightarrow> bool" where
  "isinstance_str (PStr s) = True"
| "isinstance_str PNone = False"
| "isinstance_str (PInt i) = False"
| "isinstance_str (PList xs) = False"
| "isinstance_str (Item i d t r c) = False"

text \<open>
  The decoding step, written twice in the source with the same text (for the training
  record's response, lines 131-135, and for the ground truth of a trial, lines 163-167):

  \<^verbatim>\<open>if isinstance(truth, str):\<close>
  \<^verbatim>\<open>    if response_type == 'multiple-choice':\<close>
  \<^verbatim>\<open>        truth = [y.split(';') for y in [x.split('/') for x in truth.split('|')]]\<close>
  \<^verbatim>\<open>    else:\<close>
  \<^verbatim>\<open>        truth = [x.split(';') for x in truth.split('/')]\<close>
\<close>

definition decode_response :: "pyval \<Rightarrow> pyval \<Rightarrow> error + pyval" where
  "decode_response truth response_type =
     (if isinstance_str truth then
        (if response_type = PStr ''multiple-choice'' then
           bind_res (split_method truth CHR ''|'') (\<lambda>segments.
           bind_res (comprehension (\<lambda>x. split_method x CHR ''/'') segments) (\<lambda>parts.
           comprehension (\<lambda>y. split_method y CHR '';'') parts))
         else
           bind_res (split_method truth CHR ''/'')
             (comprehension (\<lambda>x. split_method x CHR '';'')))
      else Inr truth)"

section \<open>Tables\<close>

text \<open>
  A row of a \<^verbatim>\<open>pandas\<close> table: its index label and its cells. The seven required
  columns are typed fields; the identifier and the per-subject ordering key are
  integers. Every other column of the table is an entry of \<open>r_extra\<close>, in column order.
\<close>

record row =
  label :: nat
  r_id :: int
  r_sequence :: int
  r_task :: pyval
  r_choices :: pyval
  r_response :: pyval
  r_response_type :: string
  r_domain :: string
  r_extra :: "(string \<times> pyval) list"

text \<open>
  \<^verbatim>\<open>pd.read_csv(file)\<close> with no index column: the rows of the file, labelled
  \<open>0, 1, 2, ...\<close> in file order. Grouping and sorting keep each row's label.
\<close>

definition read_csv :: "row list \<Rightarrow> row list" where
  "read_csv file_rows = map (\<lambda>(i, r). r\<lparr>label := i\<rparr>) (enumerate 0 file_rows)"

text \<open>\<^verbatim>\<open>row.iteritems()\<close>: the cells of a row as (column, value) pairs.\<close>

definition iteritems :: "row \<Rightarrow> (string \<times> pyval) list" where
  "iteritems r =
     [(''id'', PInt (r_id r)),
      (''sequence'', PInt (r_sequence r)),
      (''task'', r_task r),
      (''choices'', r_choices r),
      (''response'', r_response r),
      (''response_type'', PStr (r_response_type r)),
      (''domain'', PStr (r_domain r))] @ r_extra r"

text \<open>\<^verbatim>\<open>Series.unique()\<close>: the distinct values in order of first occurrence.\<close>

function unique :: "'a list \<Rightarrow> 'a list" where
  "unique [] = []"
| "unique (x # xs) = x # unique (removeAll x xs)"
  by pat_completeness auto
termination
  by (relation "measure length") (auto simp: le_imp_less_Suc length_removeAll_less_eq)

text \<open>
  \<^verbatim>\<open>df.groupby('id')\<close>, iterated: \<^verbatim>\<open>groupby\<close> sorts the group keys unless told
  otherwise (\<^verbatim>\<open>sort=True\<close> is its default, and the source passes nothing), so the
  groups come in ascending order of the identifier; each group holds its rows in table
  order.
\<close>

definition groupby_id :: "row list \<Rightarrow> (int \<times> row list) list" where
  "groupby_id rows =
     map (\<lambda>k. (k, filter (\<lambda>r. r_id r = k) rows)) (sort (remdups (map r_id rows)))"

text \<open>
  \<^verbatim>\<open>df.sort_values('sequence')\<close>: the rows by ascending \<open>sequence\<close>. Rows with equal
  keys are kept in table order here; \<^verbatim>\<open>pandas\<close> leaves their order to the sorting
  algorithm, and no statement below depends on it.
\<close>

definition sort_values_sequence :: "row list \<Rightarrow> row list" where
  "sort_values_sequence rows = sort_key r_sequence rows"

text \<open>
  Modelled from the spec: \<^verbatim>\<open>ccobra.data.CCobraData\<close> is not among the sources. The
  object wraps a table (\<^verbatim>\<open>get()\<close> returns it) and declares the required columns.
\<close>

record ccobra_data =
  df :: "row list"
  required_fields :: "string list"

text \<open>
  Modelled from the spec: the constructor of \<^verbatim>\<open>ccobra.data.CCobraData\<close>, not among the
  sources. The required columns are those the spec lists:
  \<^verbatim>\<open>id, domain, response_type, task, choices, response, sequence\<close>.
\<close>

definition CCobraData :: "row list \<Rightarrow> ccobra_data" where
  "CCobraData table =
     \<lparr>df = table,
      required_fields =
        [''id'', ''domain'', ''response_type'', ''task'', ''choices'', ''response'', ''sequence'']\<rparr>"

section \<open>The process state and the calls to collaborators\<close>

text \<open>
  The evaluator calls code it does not own: the model importer, the model's hooks and
  the comparator. Each such call is recorded, with its arguments, in the order in which
  the source makes it.
\<close>

datatype call =
    Call_import string
  | Call_instantiate string
  | Call_pre_train "(string \<times> pyval) list list list"
  | Call_start_participant int "(string \<times> pyval) list"
  | Call_predict pyval "(string \<times> pyval) list"
  | Call_compare pyval pyval
  | Call_adapt pyval pyval "(string \<times> pyval) list"
  | Call_unimport string

text \<open>
  The process-wide state the source touches: the working directory (\<^verbatim>\<open>os.getcwd\<close>,
  \<^verbatim>\<open>os.chdir\<close>), the module search path (\<^verbatim>\<open>sys.path\<close>), the registry of loaded
  modules, and the log of calls; and of the file system the directories that exist,
  since \<^verbatim>\<open>os.getcwd\<close> and \<^verbatim>\<open>os.chdir\<close> raise on one that does not. The body of a
  directory context is any code and may remove a directory; the importer and the hooks
  of a model, as they are modelled below, do not.
\<close>

record world =
  cwd :: string
  dirs :: "string list"
  sys_path :: "string list"
  sys_modules :: "string list"
  calls :: "call list"

text \<open>
  A statement of the source runs in a world and either returns a value or raises; the
  world it leaves behind is kept in both cases.
\<close>

type_synonym 'a io = "world \<Rightarrow> (error + 'a) \<times> world"

definition ret :: "'a \<Rightarrow> 'a io" where
  "ret v w = (Inr v, w)"

definition raise_error :: "error \<Rightarrow> 'a io" where
  "raise_error e w = (Inl e, w)"

definition lift_res :: "error + 'a \<Rightarrow> 'a io" where
  "lift_res r w = (r, w)"

definition bind_io :: "'a io \<Rightarrow> ('a \<Rightarrow> 'b io) \<Rightarrow> 'b io" where
  "bind_io m f w = (case m w of (Inl e, w') \<Rightarrow> (Inl e, w') | (Inr v, w') \<Rightarrow> f v w')"

definition record_call :: "call \<Rightarrow> unit io" where
  "record_call c w = (Inr (), w\<lparr>calls := calls w @ [c]\<rparr>)"

text \<open>A \<^verbatim>\<open>for\<close> loop that updates local variables \<open>acc\<close>; a raise ends it.\<close>

fun for_each :: "'a list \<Rightarrow> ('a \<Rightarrow> 'b \<Rightarrow> 'b io) \<Rightarrow> 'b \<Rightarrow> 'b io" where
  "for_each [] body acc = ret acc"
| "for_each (x # xs) body acc = bind_io (body x acc) (for_each xs body)"

section \<open>The directory context (lines 13-22)\<close>

text \<open>
  \<^verbatim>\<open>os.getcwd()\<close> returns the working directory and raises when that directory has
  been removed; \<^verbatim>\<open>os.chdir(path)\<close> raises, and changes nothing, when \<open>path\<close> is not a
  directory that exists.
\<close>

definition os_getcwd :: "string io" where
  "os_getcwd w =
     (if cwd w \<in> set (dirs w) then (Inr (cwd w), w) else (Inl FileNotFoundError, w))"

definition os_chdir :: "string \<Rightarrow> unit io" where
  "os_chdir path w =
     (if path \<in> set (dirs w) then (Inr (), w\<lparr>cwd := path\<rparr>) else (Inl FileNotFoundError, w))"

text \<open>
  \<^verbatim>\<open>sys.path.append(path)\<close> and \<^verbatim>\<open>sys.path.remove(path)\<close>: \<^verbatim>\<open>list.remove\<close> takes out
  the first occurrence and raises \<^verbatim>\<open>ValueError\<close> when there is none.
\<close>

definition sys_path_append :: "string \<Rightarrow> unit io" where
  "sys_path_append path w = (Inr (), w\<lparr>sys_path := sys_path w @ [path]\<rparr>)"

definition sys_path_remove :: "string \<Rightarrow> unit io" where
  "sys_path_remove path w =
     (if path \<in> set (sys_path w)
      then (Inr (), w\<lparr>sys_path := remove1 path (sys_path w)\<rparr>)
      else (Inl ValueError_remove, w))"

text \<open>
  \<^verbatim>\<open>@contextmanager def dir_context(path)\<close>. Lines 15-17 run before the body of the
  \<^verbatim>\<open>with\<close> statement: when one of them raises, the body does not run. The body runs
  at the \<^verbatim>\<open>yield\<close>. The \<^verbatim>\<open>finally\<close> clause (lines 21-22) runs whether the body
  returned or raised: when both of its statements return, the outcome of the body is
  the outcome of the context; when \<^verbatim>\<open>os.chdir(old_dir)\<close> raises, line 22 is skipped,
  and what the clause raises replaces the outcome of the body.
\<close>

definition dir_context :: "string \<Rightarrow> 'a io \<Rightarrow> 'a io" where
  "dir_context path body =
     bind_io os_getcwd (\<lambda>old_dir.
     bind_io (os_chdir path) (\<lambda>_.
     bind_io (sys_path_append path) (\<lambda>_ w.
       let (r, w') = body w
       in (case bind_io (os_chdir old_dir) (\<lambda>_. sys_path_remove path) w' of
             (Inl e, w'') \<Rightarrow> (Inl e, w'')
           | (Inr u, w'') \<Rightarrow> (r, w'')))))"

section \<open>Models and their importer\<close>

text \<open>
  The capability contract of a model (\<^verbatim>\<open>ccobra.CCobraModel\<close>): its name, what it
  supports, and its hooks. A hook reads and updates the model's own state \<open>'s\<close>;
  \<^verbatim>\<open>predict\<close> returns a prediction as well. A hook is taken to return and to leave
  the process state alone.
\<close>

record 's ccobra_model =
  name :: string
  supported_domains :: "string list"
  supported_response_types :: "string list"
  state :: 's
  pre_train :: "(string \<times> pyval) list list list \<Rightarrow> 's \<Rightarrow> 's"
  start_participant :: "int \<Rightarrow> (string \<times> pyval) list \<Rightarrow> 's \<Rightarrow> 's"
  predict :: "pyval \<Rightarrow> (string \<times> pyval) list \<Rightarrow> 's \<Rightarrow> pyval \<times> 's"
  adapt :: "pyval \<Rightarrow> pyval \<Rightarrow> (string \<times> pyval) list \<Rightarrow> 's \<Rightarrow> 's"

text \<open>
  An entry of the model list is a path to a file. What the evaluator gets from the file
  system for it: the directory \<^verbatim>\<open>os.path.dirname(os.path.abspath(model))\<close> and the
  entities of the file that conform to the model contract.
\<close>

record 's model_file =
  mf_path :: string
  mf_context :: string
  mf_candidates :: "'s ccobra_model list"

text \<open>
  Modelled from the spec: \<^verbatim>\<open>modelimporter.ModelImporter\<close> is not among the sources.
  The importer object: the code unit it loaded and the one entity of it that conforms to
  the model contract.
\<close>

record 's importer =
  imp_module :: string
  imp_class :: "'s ccobra_model"

text \<open>
  Modelled from the spec: the constructor of \<^verbatim>\<open>modelimporter.ModelImporter\<close>, not among
  the sources. Loading registers the model's code unit in the process-wide module
  registry and must then find exactly one entity that conforms to the model contract;
  none, or more than one, is a \<open>ModelDiscoveryError\<close>. The search-path entry is added
  and dropped by \<open>dir_context\<close>.
\<close>

definition ModelImporter :: "'s model_file \<Rightarrow> 's importer io" where
  "ModelImporter model =
     bind_io (record_call (Call_import (mf_path model))) (\<lambda>_ w.
       let w' = w\<lparr>sys_modules := List.insert (mf_path model) (sys_modules w)\<rparr>
       in (case mf_candidates model of
             [c] \<Rightarrow> (Inr \<lparr>imp_module = mf_path model, imp_class = c\<rparr>, w')
           | _ \<Rightarrow> (Inl ModelDiscoveryError, w')))"

text \<open>
  Modelled from the spec: \<^verbatim>\<open>ModelImporter.instantiate\<close>, not among the sources, builds
  one instance of the entity that was found.
\<close>

definition instantiate :: "'s importer \<Rightarrow> 's ccobra_model io" where
  "instantiate imp =
     bind_io (record_call (Call_instantiate (imp_module imp))) (\<lambda>_. ret (imp_class imp))"

text \<open>
  Modelled from the spec: \<^verbatim>\<open>ModelImporter.unimport\<close>, not among the sources, reverses
  the registration: it takes the model's code unit out of the module registry.
\<close>

definition unimport :: "'s importer \<Rightarrow> unit io" where
  "unimport imp =
     bind_io (record_call (Call_unimport (imp_module imp))) (\<lambda>_ w.
       (Inr (), w\<lparr>sys_modules := removeAll (imp_module imp) (sys_modules w)\<rparr>))"

section \<open>The evaluator (lines 24-196)\<close>

text \<open>
  The attributes \<^verbatim>\<open>__init__\<close> sets. The comparator object is its \<^verbatim>\<open>compare\<close>
  method; \<open>tuple_to_string\<close> stands for the function of that name of the module
  \<^verbatim>\<open>comparator\<close>, which is not among the sources. \<^verbatim>\<open>silent\<close> only decides whether
  progress lines are printed.
\<close>

record 's evaluator =
  modellist :: "'s model_file list"
  silent :: bool
  domains :: "string set"
  response_types :: "string set"
  comparator :: "pyval \<Rightarrow> pyval \<Rightarrow> pyval"
  tuple_to_string :: "pyval \<Rightarrow> string"
  test_data :: ccobra_data
  train_data :: "ccobra_data option"

text \<open>
  Lines 57-58 and 61-62: \<^verbatim>\<open>dict(zip(ids, range(start, start + len(ids))))\<close>.
\<close>

definition new_ids :: "int list \<Rightarrow> nat \<Rightarrow> (int \<times> int) list" where
  "new_ids ids start = zip ids (map int [start ..< start + length ids])"

text \<open>
  Lines 59 and 63: \<^verbatim>\<open>df['id'].replace(mapping, inplace=True)\<close>. Every cell that is a
  key of the mapping becomes the key's value; all keys are matched against the cells
  as they were before the call.
\<close>

definition replace_id :: "(int \<times> int) list \<Rightarrow> row list \<Rightarrow> row list" where
  "replace_id mapping table =
     map (\<lambda>r. r\<lparr>r_id := (case map_of mapping (r_id r) of Some n \<Rightarrow> n | None \<Rightarrow> r_id r)\<rparr>) table"

text \<open>
  \<^verbatim>\<open>Evaluator.__init__\<close> (lines 25-63). The two data files are given by their rows;
  \<open>None\<close> is the absent training file.
\<close>

definition Evaluator_init ::
  "'s model_file list \<Rightarrow> (pyval \<Rightarrow> pyval \<Rightarrow> pyval) \<Rightarrow> (pyval \<Rightarrow> string) \<Rightarrow>
   row list \<Rightarrow> row list option \<Rightarrow> bool \<Rightarrow> bool \<Rightarrow> 's evaluator" where
  "Evaluator_init models eval_comparator to_string test_datafile train_datafile
     is_silent corresponding_data =
     (let test = CCobraData (read_csv test_datafile);
          test_domains = set (map r_domain (df test));
          test_response_types = set (map r_response_type (df test))
      in case train_datafile of
           None \<Rightarrow>
             \<lparr>modellist = models, silent = is_silent,
              domains = test_domains, response_types = test_response_types,
              comparator = eval_comparator, tuple_to_string = to_string,
              test_data = test, train_data = None\<rparr>
         | Some train_rows \<Rightarrow>
             (let train = CCobraData (read_csv train_rows);
                  all_domains = test_domains \<union> set (map r_domain (df train));
                  all_response_types =
                    test_response_types \<union> set (map r_response_type (df train))
              in if \<not> corresponding_data then
                   (let train_ids = unique (map r_id (df train));
                        new_train_ids = new_ids train_ids 0;
                        train' = train\<lparr>df := replace_id new_train_ids (df train)\<rparr>;
                        test_ids = unique (map r_id (df test));
                        new_test_ids = new_ids test_ids (length train_ids);
                        test' = test\<lparr>df := replace_id new_test_ids (df test)\<rparr>
                    in \<lparr>modellist = models, silent = is_silent,
                        domains = all_domains, response_types = all_response_types,
                        comparator = eval_comparator, tuple_to_string = to_string,
                        test_data = test', train_data = Some train'\<rparr>)
                 else
                   \<lparr>modellist = models, silent = is_silent,
                    domains = all_domains, response_types = all_response_types,
                    comparator = eval_comparator, tuple_to_string = to_string,
                    test_data = test, train_data = Some train\<rparr>))"

text \<open>\<^verbatim>\<open>extract_optionals\<close> (lines 65-68): the cells whose column is not required.\<close>

definition extract_optionals :: "'s evaluator \<Rightarrow> (string \<times> pyval) list \<Rightarrow> (string \<times> pyval) list" where
  "extract_optionals self cells =
     (let essential = required_fields (test_data self)
      in filter (\<lambda>(key, v). key \<notin> set essential) cells)"

text \<open>
  \<^verbatim>\<open>extract_demographics\<close> (lines 70-80). All rows of a table have the same columns;
  a cell that a row lacks reads as the missing value.
\<close>

definition columns :: "row list \<Rightarrow> string list" where
  "columns table = (case table of [] \<Rightarrow> [] | r # _ \<Rightarrow> map fst (iteritems r))"

definition cell :: "string \<Rightarrow> row \<Rightarrow> pyval" where
  "cell column r = (case map_of (iteritems r) column of Some v \<Rightarrow> v | None \<Rightarrow> PNone)"

definition extract_demographics :: "row list \<Rightarrow> (string \<times> pyval) list" where
  "extract_demographics data_df =
     (let demo_data = [''age'', ''gender'', ''education'', ''affinity'', ''experience'']
      in concat (map (\<lambda>d.
           if d \<in> set (columns data_df) then
             (case unique (map (cell d) data_df) of
                [v] \<Rightarrow> [(d, v)]
              | vs \<Rightarrow> [(d, PList vs)])
           else []) demo_data))"

text \<open>Dictionaries with string keys, in insertion order.\<close>

definition dict_get :: "(string \<times> pyval) list \<Rightarrow> string \<Rightarrow> error + pyval" where
  "dict_get d key = (case map_of d key of Some v \<Rightarrow> Inr v | None \<Rightarrow> Inl (KeyError key))"

definition dict_set :: "(string \<times> pyval) list \<Rightarrow> string \<Rightarrow> pyval \<Rightarrow> (string \<times> pyval) list" where
  "dict_set d key v =
     (if key \<in> fst ` set d then map (\<lambda>(k, old). if k = key then (k, v) else (k, old)) d
      else d @ [(key, v)])"

text \<open>
  The training record of one row (lines 119-137). \<open>seq_info\<close> is the first component
  of what \<^verbatim>\<open>iterrows()\<close> yields, the row's index label.
\<close>

definition training_record :: "int \<Rightarrow> row \<Rightarrow> error + (string \<times> pyval) list" where
  "training_record id_info r =
     (let seq_info = label r;
          train_dict =
            [(''id'', PInt id_info),
             (''sequence'', PInt (int seq_info)),
             (''item'', Item id_info (r_domain r) (r_task r) (r_response_type r) (r_choices r))];
          train_dict =
            foldl (\<lambda>d (key, v). if key \<notin> fst ` set d then dict_set d key v else d)
              train_dict (iteritems r)
      in bind_res (dict_get train_dict ''response'') (\<lambda>response.
         if isinstance_str response then
           bind_res (dict_get train_dict ''response_type'') (\<lambda>response_type.
           bind_res (decode_response response response_type) (\<lambda>decoded.
           Inr (dict_set train_dict ''response'' decoded)))
         else Inr train_dict))"

text \<open>Lines 115-138: one list of training records per subject.\<close>

definition training_data_dicts :: "row list \<Rightarrow> error + (string \<times> pyval) list list list" where
  "training_data_dicts table =
     map_res (\<lambda>(id_info, subj_df).
         map_res (training_record id_info) (sort_values_sequence subj_df))
       (groupby_id table)"

record result_row =
  rr_model :: string
  rr_id :: int
  rr_domain :: string
  rr_sequence :: int
  rr_task :: pyval
  rr_choices :: pyval
  rr_truth :: pyval
  rr_prediction :: string
  rr_hit :: pyval

text \<open>One trial (the body of the loop of line 152, lines 153-190).\<close>

definition run_trial ::
  "'s evaluator \<Rightarrow> int \<Rightarrow> row \<Rightarrow> 's ccobra_model \<times> result_row list \<Rightarrow>
   ('s ccobra_model \<times> result_row list) io" where
  "run_trial self subj_id r = (\<lambda>(model, result_data).
     let optionals = extract_optionals self (iteritems r);
         sequence = r_sequence r;
         task = r_task r;
         choices = r_choices r;
         truth = r_response r;
         response_type = r_response_type r;
         dom = r_domain r
     in bind_io (lift_res (decode_response truth (PStr response_type))) (\<lambda>truth.
        let item = Item subj_id dom task response_type choices
        in bind_io (record_call (Call_predict item optionals)) (\<lambda>_.
        let (prediction, s1) = predict model item optionals (state model)
        in bind_io (record_call (Call_compare prediction truth)) (\<lambda>_.
        let hit = comparator self prediction truth;
            adapt_item = Item subj_id dom task response_type choices
        in bind_io (record_call (Call_adapt adapt_item truth optionals)) (\<lambda>_.
        let s2 = adapt model adapt_item truth optionals s1
        in ret (model\<lparr>state := s2\<rparr>,
                result_data @
                  [\<lparr>rr_model = name model, rr_id = subj_id, rr_domain = dom,
                    rr_sequence = sequence, rr_task = task, rr_choices = choices,
                    rr_truth = truth, rr_prediction = tuple_to_string self prediction,
                    rr_hit = hit\<rparr>]))))))"

text \<open>
  One subject (the body of the loop of line 143, lines 144-190). The deep copy gives the
  subject the pre-trained model's state; what the subject's trials do to the copy is
  dropped with it.
\<close>

definition run_subject ::
  "'s evaluator \<Rightarrow> 's ccobra_model \<Rightarrow> int \<times> row list \<Rightarrow> result_row list \<Rightarrow> result_row list io" where
  "run_subject self pre_model = (\<lambda>(subj_id, subj_df) result_data.
     let model = pre_model;
         demographics = extract_demographics subj_df
     in bind_io (record_call (Call_start_participant subj_id demographics)) (\<lambda>_.
        let model = model\<lparr>state := start_participant model subj_id demographics (state model)\<rparr>
        in bind_io (for_each (sort_values_sequence subj_df) (run_trial self subj_id)
                      (model, result_data)) (\<lambda>(model, result_data).
           ret result_data)))"

text \<open>One model (the body of the loop of line 86, lines 92-194).\<close>

definition evaluate_model ::
  "'s evaluator \<Rightarrow> 's model_file \<Rightarrow> result_row list \<Rightarrow> result_row list io" where
  "evaluate_model self model result_data =
     (let context = mf_context model
      in dir_context context
           (bind_io (ModelImporter model) (\<lambda>importer.
            bind_io (instantiate importer) (\<lambda>pre_model.
            let missing_domains = domains self - set (supported_domains pre_model)
            in if missing_domains \<noteq> {} then
                 raise_error (ValueError_domains (name pre_model) missing_domains)
               else
            let missing_response_types =
                  response_types self - set (supported_response_types pre_model)
            in if missing_response_types \<noteq> {} then
                 raise_error (ValueError_response_types (name pre_model) missing_response_types)
               else
            bind_io
              (case train_data self of
                 None \<Rightarrow> ret pre_model
               | Some train \<Rightarrow>
                   bind_io (lift_res (training_data_dicts (df train))) (\<lambda>train_data_dicts.
                   bind_io (record_call (Call_pre_train train_data_dicts)) (\<lambda>_.
                   ret (pre_model\<lparr>state :=
                          pre_train pre_model train_data_dicts (state pre_model)\<rparr>))))
              (\<lambda>pre_model.
            bind_io (for_each (groupby_id (df (test_data self))) (run_subject self pre_model)
                       result_data) (\<lambda>result_data.
            bind_io (unimport importer) (\<lambda>_.
            ret result_data)))))))"

text \<open>\<^verbatim>\<open>Evaluator.evaluate\<close> (lines 82-196): the result table, or what was raised.\<close>

definition evaluate :: "'s evaluator \<Rightarrow> result_row list io" where
  "evaluate self = for_each (modellist self) (evaluate_model self) []"

section \<open>Concrete inputs\<close>

text \<open>
  A trial row of a data file, given by subject, sequence, task and response; single
  choice, in the syllogistic domain, no optional columns.
\<close>

definition trial :: "int \<Rightarrow> int \<Rightarrow> string \<Rightarrow> string \<Rightarrow> row" where
  "trial subj seq task_text response_text =
     \<lparr>label = 0, r_id = subj, r_sequence = seq, r_task = PStr task_text,
      r_choices = PStr ''yes|no'', r_response = PStr response_text,
      r_response_type = ''single-choice'', r_domain = ''syllogistic'', r_extra = []\<rparr>"

text \<open>
  A model that predicts the last truth it was adapted to (nothing before the first
  adaption), and a model that supports another domain only.
\<close>

definition echo_model :: "pyval ccobra_model" where
  "echo_model =
     \<lparr>name = ''echo'', supported_domains = [''syllogistic''],
      supported_response_types = [''single-choice''], state = PNone,
      pre_train = (\<lambda>training s. s), start_participant = (\<lambda>subj demographics s. s),
      predict = (\<lambda>item optionals s. (s, s)), adapt = (\<lambda>item truth optionals s. truth)\<rparr>"

definition picky_model :: "pyval ccobra_model" where
  "picky_model = echo_model\<lparr>name := ''picky'', supported_domains := [''propositional'']\<rparr>"

definition echo_file :: "pyval model_file" where
  "echo_file = \<lparr>mf_path = ''/models/echo.py'', mf_context = ''/models'',
                 mf_candidates = [echo_model]\<rparr>"

definition picky_file :: "pyval model_file" where
  "picky_file = \<lparr>mf_path = ''/models/picky.py'', mf_context = ''/models'',
                  mf_candidates = [picky_model]\<rparr>"

definition hit_or_miss :: "pyval \<Rightarrow> pyval \<Rightarrow> pyval" where
  "hit_or_miss prediction truth = (if prediction = truth then PInt 1 else PInt 0)"

definition shown :: "pyval \<Rightarrow> string" where
  "shown prediction = (case prediction of PNone \<Rightarrow> ''None'' | _ \<Rightarrow> ''response'')"

definition world0 :: world where
  "world0 = \<lparr>cwd = ''/home'', dirs = [''/home'', ''/models'', ''/lib''],
              sys_path = [''/lib''], sys_modules = [], calls = []\<rparr>"



text \<open>One subject, two trials, the \<open>sequence\<close> column reading 2, 1 in file order.\<close>

definition scenario_A :: "pyval evaluator" where
  "scenario_A = Evaluator_init [echo_file] hit_or_miss shown
     [trial 1 2 ''second'' ''b'', trial 1 1 ''first'' ''a''] None True False"

text \<open>Two subjects, the \<open>id\<close> column reading 2, 1 in file order; no training file.\<close>

definition two_subjects :: "pyval evaluator" where
  "two_subjects = Evaluator_init [echo_file] hit_or_miss shown
     [trial 2 1 ''p'' ''a'', trial 1 1 ''q'' ''b''] None True False"

text \<open>A model list whose first model is not applicable to the data.\<close>

definition picky_first :: "pyval evaluator" where
  "picky_first = Evaluator_init [picky_file, echo_file] hit_or_miss shown
     [trial 1 1 ''p'' ''a''] None True False"

text \<open>
  A training file and a test file that share the identifier 5 and are not declared
  corresponding.
\<close>

definition shared_id :: "pyval evaluator" where
  "shared_id = Evaluator_init [echo_file] hit_or_miss shown
     [trial 5 1 ''p'' ''a'', trial 9 1 ''q'' ''b'']
     (Some [trial 5 1 ''r'' ''a'', trial 3 1 ''s'' ''b'', trial 5 2 ''t'' ''c''])
     True False"

text \<open>A model list in which a model that is not applicable stands between two that are.\<close>

definition picky_second :: "pyval evaluator" where
  "picky_second = Evaluator_init [echo_file, picky_file, echo_file] hit_or_miss shown
     [trial 1 1 ''p'' ''a''] None True False"

section \<open>Notation for the statements\<close>

text \<open>
  The item of a trial, the three calls a trial makes, the result row it appends, and
  the projections used to state the order of calls and rows.
\<close>

abbreviation trial_item :: "int \<Rightarrow> row \<Rightarrow> pyval" where
  "trial_item subj_id r \<equiv> Item subj_id (r_domain r) (r_task r) (r_response_type r) (r_choices r)"

abbreviation trial_calls :: "'s evaluator \<Rightarrow> int \<Rightarrow> row \<times> pyval \<times> pyval \<Rightarrow> call list" where
  "trial_calls self subj_id \<equiv> (\<lambda>(r, prediction, truth).
     [Call_predict (trial_item subj_id r) (extract_optionals self (iteritems r)),
      Call_compare prediction truth,
      Call_adapt (trial_item subj_id r) truth (extract_optionals self (iteritems r))])"

abbreviation trial_result :: "'s evaluator \<Rightarrow> string \<Rightarrow> int \<Rightarrow> row \<times> pyval \<times> pyval \<Rightarrow> result_row" where
  "trial_result self model_name subj_id \<equiv> (\<lambda>(r, prediction, truth).
     \<lparr>rr_model = model_name, rr_id = subj_id, rr_domain = r_domain r,
      rr_sequence = r_sequence r, rr_task = r_task r, rr_choices = r_choices r,
      rr_truth = truth, rr_prediction = tuple_to_string self prediction,
      rr_hit = comparator self prediction truth\<rparr>)"

abbreviation row_key :: "result_row \<Rightarrow> string \<times> int \<times> int" where
  "row_key r \<equiv> (rr_model r, rr_id r, rr_sequence r)"

abbreviation started_ids :: "call list \<Rightarrow> int list" where
  "started_ids cs \<equiv> [k. Call_start_participant k d \<leftarrow> cs]"

section \<open>Evaluating the model on concrete inputs\<close>

lemmas engine_defs =
  evaluate_def evaluate_model_def dir_context_def os_getcwd_def os_chdir_def
  sys_path_append_def sys_path_remove_def ModelImporter_def instantiate_def
  unimport_def bind_io_def record_call_def ret_def raise_error_def lift_res_def
  groupby_id_def run_subject_def run_trial_def sort_values_sequence_def
  extract_demographics_def extract_optionals_def columns_def cell_def iteritems_def
  decode_response_def bind_res_def training_data_dicts_def training_record_def
  dict_get_def dict_set_def Let_def

lemmas input_defs =
  Evaluator_init_def CCobraData_def read_csv_def new_ids_def replace_id_def trial_def
  echo_file_def echo_model_def picky_file_def picky_model_def world0_def hit_or_miss_def
  shown_def

section \<open>Properties of the decoding step\<close>

text \<open>
  What \<open>str_split\<close> returns is determined by two facts: the pieces, each followed by
  the separator, spell the string followed by the separator; and no piece holds the
  separator.
\<close>

lemma str_split_not_Nil: "str_split sep s \<noteq> []"
  by (induction s) (auto split: list.splits)

lemma str_split_rejoin: "concat (map (\<lambda>t. t @ [sep]) (str_split sep s)) = s @ [sep]"
proof (induction s)
  case Nil
  show ?case by simp
next
  case (Cons c cs)
  then show ?case
    by (cases "str_split sep cs") (auto simp: str_split_not_Nil)
qed

lemma str_split_no_sep: "t \<in> set (str_split sep s) \<Longrightarrow> sep \<notin> set t"
proof (induction s arbitrary: t)
  case Nil
  then show ?case by simp
next
  case (Cons c cs)
  then show ?case
    by (cases "str_split sep cs") (auto split: if_splits)
qed

text \<open>The two facts determine the pieces: no other list of strings has them.\<close>

lemma str_split_no_sep_inside: "sep \<notin> set t \<Longrightarrow> str_split sep t = [t]"
  by (induction t) auto

lemma str_split_at_sep:
  "sep \<notin> set t \<Longrightarrow> str_split sep (t @ sep # r) = t # str_split sep r"
  by (induction t) auto

lemma str_split_unique:
  "concat (map (\<lambda>t. t @ [sep]) ts) = s @ [sep] \<Longrightarrow> \<forall>t \<in> set ts. sep \<notin> set t \<Longrightarrow>
   ts = str_split sep s"
proof (induction ts arbitrary: s)
  case Nil
  then show ?case by simp
next
  case (Cons t ts)
  show ?case
  proof (cases ts)
    case Nil
    with Cons.prems show ?thesis
      by (simp add: str_split_no_sep_inside)
  next
    case (Cons u us)
    define rest where "rest = concat (map (\<lambda>t. t @ [sep]) ts)"
    have "rest \<noteq> []" and "last rest = sep"
      unfolding rest_def Cons by (induction us arbitrary: u) auto
    then obtain r where r: "rest = r @ [sep]"
      by (metis append_butlast_last_id)
    from Cons.prems(1) have "t @ sep # r @ [sep] = s @ [sep]"
      by (simp add: rest_def [symmetric] r)
    then have s: "s = t @ sep # r"
      by (metis append.assoc append_Cons append_same_eq)
    have "ts = str_split sep r"
      using Cons.IH [of r] Cons.prems(2) r by (simp add: rest_def)
    with s Cons.prems(2) show ?thesis
      by (simp add: str_split_at_sep)
  qed
qed

lemma split_all_unique:
  assumes "list_all2 (\<lambda>sub tokens.
           concat (map (\<lambda>t. t @ [sep]) tokens) = sub @ [sep]
           \<and> (\<forall>t \<in> set tokens. sep \<notin> set t)) subs parts"
  shows "parts = map (str_split sep) subs"
  using assms
  by (induction rule: list_all2_induct) (simp_all add: str_split_unique)

lemma map_res_split_strings:
  "map_res (\<lambda>x. split_method x sep) (map PStr ss) =
     Inr (map (\<lambda>s. PList (map PStr (str_split sep s))) ss)"
  by (induction ss) simp_all

lemma map_res_split_lists:
  "ss \<noteq> [] \<Longrightarrow>
   map_res (\<lambda>y. split_method y sep) (map (\<lambda>s. PList (g s)) ss) = Inl AttributeError"
  by (cases ss) simp_all

lemma decode_plain:
  "response_type \<noteq> PStr ''multiple-choice'' \<Longrightarrow>
   decode_response (PStr s) response_type =
     Inr (PList (map (\<lambda>sub. PList (map PStr (str_split CHR '';'' sub))) (str_split CHR ''/'' s)))"
  by (simp add: decode_response_def bind_res_def map_res_split_strings)

text \<open>
  The multiple-choice branch raises for every string: the outer comprehension calls
  \<^verbatim>\<open>split\<close> on the lists that the inner one built, and there is at least one.
\<close>

lemma decode_multiple_choice:
  "decode_response (PStr s) (PStr ''multiple-choice'') = Inl AttributeError"
  by (simp add: decode_response_def bind_res_def map_res_split_strings map_res_split_lists
      str_split_not_Nil)

lemma decode_structured: "\<not> isinstance_str v \<Longrightarrow> decode_response v response_type = Inr v"
  by (simp add: decode_response_def)

text \<open>
  Claim C1. A multiple-choice trial whose stored response is still a string is to be
  decoded by splitting at \<open>|\<close>, then at \<open>/\<close>, then at \<open>;\<close>, so that \<open>a/b|c\<close> gives
  three nesting levels. The source applies the split at \<open>;\<close> to the lists that the split
  at \<open>/\<close> returned, not to their elements, and a list has no \<^verbatim>\<open>split\<close>: decoding
  \<open>a/b|c\<close> raises \<^verbatim>\<open>AttributeError\<close>.
\<close>

theorem multiple_choice_decoding_raises:
  "decode_response (PStr ''a/b|c'') (PStr ''multiple-choice'') = Inl AttributeError"
  by (simp add: decode_response_def bind_res_def)

text \<open>
  Claim C7. A response of a trial that is not multiple-choice, still a string, is split
  at \<open>/\<close> into sub-responses and each sub-response at \<open>;\<close> into tokens. Stated
  without the splitting function: the decoded value is a list of lists of tokens such
  that the sub-responses, each followed by \<open>/\<close>, spell the string followed by \<open>/\<close>,
  no sub-response holds a \<open>/\<close>, the tokens of a sub-response, each followed by \<open>;\<close>,
  spell the sub-response followed by \<open>;\<close>, and no token holds a \<open>;\<close>; and whatever
  lists have these properties are the decoded value. In particular \<open>a;b/c\<close> decodes to
  \<open>[[a, b], [c]]\<close>.
\<close>

theorem plain_decoding:
  "response_type \<noteq> PStr ''multiple-choice'' \<Longrightarrow>
   (\<exists>subs parts.
       decode_response (PStr s) response_type
         = Inr (PList (map (\<lambda>tokens. PList (map PStr tokens)) parts))
     \<and> concat (map (\<lambda>sub. sub @ ''/'') subs) = s @ ''/''
     \<and> (\<forall>sub \<in> set subs. CHR ''/'' \<notin> set sub)
     \<and> list_all2 (\<lambda>sub tokens.
           concat (map (\<lambda>t. t @ '';'') tokens) = sub @ '';''
           \<and> (\<forall>t \<in> set tokens. CHR '';'' \<notin> set t)) subs parts)
   \<and> (\<forall>subs parts.
         concat (map (\<lambda>sub. sub @ ''/'') subs) = s @ ''/''
       \<and> (\<forall>sub \<in> set subs. CHR ''/'' \<notin> set sub)
       \<and> list_all2 (\<lambda>sub tokens.
           concat (map (\<lambda>t. t @ '';'') tokens) = sub @ '';''
           \<and> (\<forall>t \<in> set tokens. CHR '';'' \<notin> set t)) subs parts
       \<longrightarrow> decode_response (PStr s) response_type
             = Inr (PList (map (\<lambda>tokens. PList (map PStr tokens)) parts)))
   \<and> decode_response (PStr s) response_type =
     Inr (PList (map (\<lambda>sub. PList (map PStr (str_split CHR '';'' sub))) (str_split CHR ''/'' s)))
   \<and> decode_response (PStr ''a;b/c'') response_type =
     Inr (PList [PList [PStr ''a'', PStr ''b''], PList [PStr ''c'']])"
proof -
  assume rt: "response_type \<noteq> PStr ''multiple-choice''"
  let ?subs = "str_split CHR ''/'' s"
  let ?parts = "map (str_split CHR '';'') ?subs"
  have a: "decode_response (PStr s) response_type
         = Inr (PList (map (\<lambda>tokens. PList (map PStr tokens)) ?parts))"
    using rt by (simp add: decode_plain o_def)
  have b: "concat (map (\<lambda>sub. sub @ ''/'') ?subs) = s @ ''/''"
    by (rule str_split_rejoin)
  have c: "\<forall>sub \<in> set ?subs. CHR ''/'' \<notin> set sub"
    by (simp add: str_split_no_sep)
  have d: "list_all2 (\<lambda>sub tokens.
           concat (map (\<lambda>t. t @ '';'') tokens) = sub @ '';''
           \<and> (\<forall>t \<in> set tokens. CHR '';'' \<notin> set t)) ?subs ?parts"
    by (simp add: list_all2_map2 list_all2_same str_split_rejoin str_split_no_sep)
  have e: "\<exists>subs parts.
       decode_response (PStr s) response_type
         = Inr (PList (map (\<lambda>tokens. PList (map PStr tokens)) parts))
     \<and> concat (map (\<lambda>sub. sub @ ''/'') subs) = s @ ''/''
     \<and> (\<forall>sub \<in> set subs. CHR ''/'' \<notin> set sub)
     \<and> list_all2 (\<lambda>sub tokens.
           concat (map (\<lambda>t. t @ '';'') tokens) = sub @ '';''
           \<and> (\<forall>t \<in> set tokens. CHR '';'' \<notin> set t)) subs parts"
    apply (rule exI [where x = ?subs])
    apply (rule exI [where x = ?parts])
    apply (intro conjI)
    apply (rule a b c d)+
    done
  have f: "decode_response (PStr s) response_type
             = Inr (PList (map (\<lambda>tokens. PList (map PStr tokens)) parts))"
    if "concat (map (\<lambda>sub. sub @ ''/'') subs) = s @ ''/''"
      and "\<forall>sub \<in> set subs. CHR ''/'' \<notin> set sub"
      and "list_all2 (\<lambda>sub tokens.
           concat (map (\<lambda>t. t @ '';'') tokens) = sub @ '';''
           \<and> (\<forall>t \<in> set tokens. CHR '';'' \<notin> set t)) subs parts"
    for subs parts
  proof -
    have "subs = ?subs"
      using that(1,2) by (rule str_split_unique)
    moreover have "parts = map (str_split CHR '';'') subs"
      using that(3) by (rule split_all_unique)
    ultimately show ?thesis using a by simp
  qed
  have g: "\<forall>subs parts.
         concat (map (\<lambda>sub. sub @ ''/'') subs) = s @ ''/''
       \<and> (\<forall>sub \<in> set subs. CHR ''/'' \<notin> set sub)
       \<and> list_all2 (\<lambda>sub tokens.
           concat (map (\<lambda>t. t @ '';'') tokens) = sub @ '';''
           \<and> (\<forall>t \<in> set tokens. CHR '';'' \<notin> set t)) subs parts
       \<longrightarrow> decode_response (PStr s) response_type
             = Inr (PList (map (\<lambda>tokens. PList (map PStr tokens)) parts))"
    by (intro allI impI, elim conjE, rule f)
  have h: "decode_response (PStr s) response_type =
     Inr (PList (map (\<lambda>sub. PList (map PStr (str_split CHR '';'' sub))) (str_split CHR ''/'' s)))"
    using rt by (rule decode_plain)
  have i: "decode_response (PStr ''a;b/c'') response_type =
     Inr (PList [PList [PStr ''a'', PStr ''b''], PList [PStr ''c'']])"
    using rt by (simp add: decode_plain)
  show ?thesis
    by (intro conjI) (rule e g h i)+
qed

theorem plain_decoding_witness:
  "PStr ''single-choice'' \<noteq> PStr ''multiple-choice''
   \<and> decode_response (PStr ''x;;y/z'') (PStr ''single-choice'') =
     Inr (PList [PList [PStr ''x'', PStr [], PStr ''y''], PList [PStr ''z'']])
   \<and> concat (map (\<lambda>sub. sub @ ''/'') [''x;;y'', ''z'']) = ''x;;y/z'' @ ''/''
   \<and> concat (map (\<lambda>t. t @ '';'') [''x'', [], ''y'']) = ''x;;y'' @ '';''
   \<and> decode_response (PStr ''a;b/c'') (PStr ''single-choice'') =
     Inr (PList [PList [PStr ''a'', PStr ''b''], PList [PStr ''c'']])"
  using plain_decoding [of "PStr ''single-choice''" "''x;;y/z''"] by simp

text \<open>
  Claim C8. Decoding is idempotent: a stored response that is already structured (not a
  string) is returned unchanged, so decoding what decoding returned gives the same
  result as decoding once (what the first decoding raised being the result of both).
\<close>

theorem decoding_idempotent:
  "(\<not> isinstance_str v \<longrightarrow> decode_response v response_type = Inr v)
   \<and> bind_res (decode_response v response_type) (\<lambda>d. decode_response d response_type)
       = decode_response v response_type"
proof (cases v)
  case (PStr s)
  show ?thesis
  proof (cases "response_type = PStr ''multiple-choice''")
    case True
    with PStr show ?thesis by (simp add: decode_multiple_choice bind_res_def)
  next
    case False
    with PStr show ?thesis by (simp add: decode_plain bind_res_def decode_structured)
  qed
qed (simp_all add: decode_structured bind_res_def)

theorem decoding_idempotent_witness:
  "\<not> isinstance_str (PList [PList [PStr ''a'']])
   \<and> decode_response (PList [PList [PStr ''a'']]) (PStr ''single-choice'')
       = Inr (PList [PList [PStr ''a'']])
   \<and> bind_res (decode_response (PStr ''a;b/c'') (PStr ''single-choice''))
        (\<lambda>d. decode_response d (PStr ''single-choice''))
       = Inr (PList [PList [PStr ''a'', PStr ''b''], PList [PStr ''c'']])"
  using decoding_idempotent [of "PList [PList [PStr ''a'']]" "PStr ''single-choice''"]
    decoding_idempotent [of "PStr ''a;b/c''" "PStr ''single-choice''"]
  by (simp add: decode_plain)

section \<open>The loops of the evaluator\<close>

lemma bind_io_Inr:
  "bind_io m f w = (Inr v, w') \<longleftrightarrow> (\<exists>u w1. m w = (Inr u, w1) \<and> f u w1 = (Inr v, w'))"
  by (auto simp: bind_io_def split: prod.splits sum.splits)

lemma run_trial_eq:
  "run_trial self subj_id r (model, result_data) w =
     (case decode_response (r_response r) (PStr (r_response_type r)) of
        Inl e \<Rightarrow> (Inl e, w)
      | Inr truth \<Rightarrow>
          (let item = Item subj_id (r_domain r) (r_task r) (r_response_type r) (r_choices r);
               optionals = extract_optionals self (iteritems r);
               prediction = fst (predict model item optionals (state model));
               s1 = snd (predict model item optionals (state model))
           in (Inr (model\<lparr>state := adapt model item truth optionals s1\<rparr>,
                    result_data @
                      [\<lparr>rr_model = name model, rr_id = subj_id, rr_domain = r_domain r,
                        rr_sequence = r_sequence r, rr_task = r_task r,
                        rr_choices = r_choices r, rr_truth = truth,
                        rr_prediction = tuple_to_string self prediction,
                        rr_hit = comparator self prediction truth\<rparr>]),
               w\<lparr>calls := calls w @
                  [Call_predict item optionals, Call_compare prediction truth,
                   Call_adapt item truth optionals]\<rparr>)))"
  by (simp add: run_trial_def bind_io_def lift_res_def record_call_def ret_def Let_def
      split: sum.splits prod.splits)


lemma trial_loop_Inr:
  "for_each trials (run_trial self subj_id) (model, result_data) w = (Inr (model', result_data'), w') \<Longrightarrow>
   name model' = name model \<and>
   (\<exists>pts. length pts = length trials
      \<and> (\<forall>(r, p, t) \<in> set (zip trials pts).
            decode_response (r_response r) (PStr (r_response_type r)) = Inr t)
      \<and> result_data' = result_data @ map (trial_result self (name model) subj_id) (zip trials pts)
      \<and> w' = w\<lparr>calls := calls w @ concat (map (trial_calls self subj_id) (zip trials pts))\<rparr>)"
proof (induction trials arbitrary: model result_data w)
  case Nil
  then show ?case by (simp add: ret_def)
next
  case (Cons r trials)
  from Cons.prems obtain model1 res1 w1 where
    step: "run_trial self subj_id r (model, result_data) w = (Inr (model1, res1), w1)" and
    rest: "for_each trials (run_trial self subj_id) (model1, res1) w1 = (Inr (model', result_data'), w')"
    by (auto simp: bind_io_Inr)
  from step obtain t where
    t: "decode_response (r_response r) (PStr (r_response_type r)) = Inr t"
    by (auto simp: run_trial_eq split: sum.splits)
  define p where "p = fst (predict model (trial_item subj_id r) (extract_optionals self (iteritems r)) (state model))"
  from step t have
    n1: "name model1 = name model" and
    r1: "res1 = result_data @ [trial_result self (name model) subj_id (r, p, t)]" and
    w1: "w1 = w\<lparr>calls := calls w @ trial_calls self subj_id (r, p, t)\<rparr>"
    by (auto simp: run_trial_eq Let_def p_def)
  from Cons.IH [OF rest] obtain pts where
    len: "length pts = length trials" and
    dec: "\<forall>(r, p, t) \<in> set (zip trials pts).
            decode_response (r_response r) (PStr (r_response_type r)) = Inr t" and
    res: "result_data' = res1 @ map (trial_result self (name model1) subj_id) (zip trials pts)" and
    w': "w' = w1\<lparr>calls := calls w1 @ concat (map (trial_calls self subj_id) (zip trials pts))\<rparr>" and
    n': "name model' = name model1"
    by blast
  have a: "length ((p, t) # pts) = length (r # trials)" using len by simp
  have b: "\<forall>(r, p, t) \<in> set (zip (r # trials) ((p, t) # pts)).
            decode_response (r_response r) (PStr (r_response_type r)) = Inr t"
    using dec t by simp
  have c: "result_data' = result_data @
      map (trial_result self (name model) subj_id) (zip (r # trials) ((p, t) # pts))"
    using res r1 n1 by simp
  have d: "w' = w\<lparr>calls := calls w @
      concat (map (trial_calls self subj_id) (zip (r # trials) ((p, t) # pts)))\<rparr>"
    using w' w1 by simp
  have e: "name model' = name model" using n' n1 by simp
  show ?case
    apply (rule conjI [OF e])
    apply (rule exI [where x = "(p, t) # pts"])
    apply (rule conjI [OF a])
    apply (rule conjI [OF b])
    apply (rule conjI [OF c d])
    done
qed


lemma run_subject_Inr:
  assumes "run_subject self pre_model (subj_id, subj_df) result_data w = (Inr result_data', w')"
  shows "\<exists>pts. length pts = length subj_df
      \<and> (\<forall>(r, p, t) \<in> set (zip (sort_values_sequence subj_df) pts).
            decode_response (r_response r) (PStr (r_response_type r)) = Inr t)
      \<and> result_data' = result_data @
            map (trial_result self (name pre_model) subj_id) (zip (sort_values_sequence subj_df) pts)
      \<and> w' = w\<lparr>calls := calls w @
            Call_start_participant subj_id (extract_demographics subj_df) #
            concat (map (trial_calls self subj_id) (zip (sort_values_sequence subj_df) pts))\<rparr>"
proof -
  define started where "started = pre_model\<lparr>state :=
    start_participant pre_model subj_id (extract_demographics subj_df) (state pre_model)\<rparr>"
  define w1 where "w1 = w\<lparr>calls := calls w @
    [Call_start_participant subj_id (extract_demographics subj_df)]\<rparr>"
  from assms obtain model' where
    loop: "for_each (sort_values_sequence subj_df) (run_trial self subj_id) (started, result_data) w1
             = (Inr (model', result_data'), w')"
    by (auto simp: run_subject_def Let_def bind_io_Inr record_call_def ret_def started_def w1_def
        split: prod.splits)
  from trial_loop_Inr [OF loop] obtain pts where
    len: "length pts = length (sort_values_sequence subj_df)" and
    dec: "\<forall>(r, p, t) \<in> set (zip (sort_values_sequence subj_df) pts).
            decode_response (r_response r) (PStr (r_response_type r)) = Inr t" and
    res: "result_data' = result_data @
            map (trial_result self (name started) subj_id) (zip (sort_values_sequence subj_df) pts)" and
    w': "w' = w1\<lparr>calls := calls w1 @
            concat (map (trial_calls self subj_id) (zip (sort_values_sequence subj_df) pts))\<rparr>"
    by blast
  have a: "length pts = length subj_df" using len by (simp add: sort_values_sequence_def)
  have c: "result_data' = result_data @
            map (trial_result self (name pre_model) subj_id) (zip (sort_values_sequence subj_df) pts)"
    using res by (simp add: started_def)
  have d: "w' = w\<lparr>calls := calls w @
            Call_start_participant subj_id (extract_demographics subj_df) #
            concat (map (trial_calls self subj_id) (zip (sort_values_sequence subj_df) pts))\<rparr>"
    using w' by (simp add: w1_def)
  show ?thesis
    apply (rule exI [where x = pts])
    apply (rule conjI [OF a])
    apply (rule conjI [OF dec])
    apply (rule conjI [OF c d])
    done
qed

lemma run_subject_keys:
  assumes "run_subject self pre_model (subj_id, subj_df) result_data w = (Inr result_data', w')"
  shows "map row_key result_data' = map row_key result_data @
           map (\<lambda>r. (name pre_model, subj_id, r_sequence r)) (sort_values_sequence subj_df)"
proof -
  from run_subject_Inr [OF assms] obtain pts where
    len: "length pts = length subj_df" and
    res: "result_data' = result_data @
            map (trial_result self (name pre_model) subj_id) (zip (sort_values_sequence subj_df) pts)"
    by blast
  have len': "length pts = length (sort_values_sequence subj_df)"
    using len by (simp add: sort_values_sequence_def)
  have "map row_key (map (trial_result self (name pre_model) subj_id) (zip trials pts))
          = map (\<lambda>r. (name pre_model, subj_id, r_sequence r)) trials"
    if "length pts = length trials" for trials
    using that by (induction trials pts rule: list_induct2') auto
  with len' res show ?thesis by simp
qed

lemma subject_loop_keys:
  "for_each groups (run_subject self pre_model) result_data w = (Inr result_data', w') \<Longrightarrow>
   map row_key result_data' = map row_key result_data @
     concat (map (\<lambda>(k, g). map (\<lambda>r. (name pre_model, k, r_sequence r)) (sort_values_sequence g)) groups)"
proof (induction groups arbitrary: result_data w)
  case Nil
  then show ?case by (simp add: ret_def)
next
  case (Cons kg groups)
  obtain k g where kg: "kg = (k, g)" by (cases kg)
  from Cons.prems kg obtain res1 w1 where
    step: "run_subject self pre_model (k, g) result_data w = (Inr res1, w1)" and
    rest: "for_each groups (run_subject self pre_model) res1 w1 = (Inr result_data', w')"
    by (auto simp: bind_io_Inr)
  from run_subject_keys [OF step] Cons.IH [OF rest] kg show ?case by simp
qed


text \<open>The outcomes of the directory context, path by path.\<close>

lemma dir_context_eq:
  "dir_context path body w =
     (if cwd w \<notin> set (dirs w) \<or> path \<notin> set (dirs w) then (Inl FileNotFoundError, w)
      else (case body (w\<lparr>cwd := path, sys_path := sys_path w @ [path]\<rparr>) of (r, w3) \<Rightarrow>
              if cwd w \<notin> set (dirs w3) then (Inl FileNotFoundError, w3)
              else if path \<notin> set (sys_path w3) then (Inl ValueError_remove, w3\<lparr>cwd := cwd w\<rparr>)
              else (r, w3\<lparr>cwd := cwd w, sys_path := remove1 path (sys_path w3)\<rparr>)))"
proof (cases "cwd w \<in> set (dirs w) \<and> path \<in> set (dirs w)")
  case False
  then show ?thesis
    by (auto simp: dir_context_def os_getcwd_def os_chdir_def bind_io_def)
next
  case True
  obtain r w3 where b: "body (w\<lparr>cwd := path, sys_path := sys_path w @ [path]\<rparr>) = (r, w3)"
    by (cases "body (w\<lparr>cwd := path, sys_path := sys_path w @ [path]\<rparr>)")
  have entry: "dir_context path body w =
      (case bind_io (os_chdir (cwd w)) (\<lambda>_. sys_path_remove path) w3 of
         (Inl e, w'') \<Rightarrow> (Inl e, w'')
       | (Inr u, w'') \<Rightarrow> (r, w''))"
    using True b
    by (simp add: dir_context_def os_getcwd_def os_chdir_def sys_path_append_def bind_io_def)
  have exit: "bind_io (os_chdir (cwd w)) (\<lambda>_. sys_path_remove path) w3 =
      (if cwd w \<notin> set (dirs w3) then (Inl FileNotFoundError, w3)
       else if path \<notin> set (sys_path w3) then (Inl ValueError_remove, w3\<lparr>cwd := cwd w\<rparr>)
       else (Inr (), w3\<lparr>cwd := cwd w, sys_path := remove1 path (sys_path w3)\<rparr>))"
    by (simp add: os_chdir_def sys_path_remove_def bind_io_def)
  show ?thesis
    unfolding entry exit using True b by simp
qed

lemma dir_context_Inr:
  assumes "dir_context path body w = (Inr v, w')"
  shows "\<exists>w3. body (w\<lparr>cwd := path, sys_path := sys_path w @ [path]\<rparr>) = (Inr v, w3)
           \<and> w' = w3\<lparr>cwd := cwd w, sys_path := remove1 path (sys_path w3)\<rparr>"
proof -
  obtain r w3 where b: "body (w\<lparr>cwd := path, sys_path := sys_path w @ [path]\<rparr>) = (r, w3)"
    by (cases "body (w\<lparr>cwd := path, sys_path := sys_path w @ [path]\<rparr>)")
  from assms b show ?thesis
    by (simp add: dir_context_eq split: if_splits)
qed

lemma ModelImporter_Inr:
  "ModelImporter model w = (Inr imp, w') \<Longrightarrow>
   \<exists>c. mf_candidates model = [c] \<and> imp = \<lparr>imp_module = mf_path model, imp_class = c\<rparr>"
  by (auto simp: ModelImporter_def bind_io_Inr record_call_def Let_def split: list.splits)

lemma instantiate_Inr:
  "instantiate imp w = (Inr m, w') \<Longrightarrow> m = imp_class imp"
  by (auto simp: instantiate_def bind_io_Inr record_call_def ret_def)

lemma pre_training_name:
  "(case train_data self of
      None \<Rightarrow> ret pre_model
    | Some train \<Rightarrow>
        bind_io (lift_res (training_data_dicts (df train))) (\<lambda>train_data_dicts.
        bind_io (record_call (Call_pre_train train_data_dicts)) (\<lambda>_.
        ret (pre_model\<lparr>state := pre_train pre_model train_data_dicts (state pre_model)\<rparr>)))) w
     = (Inr m, w') \<Longrightarrow> name m = name pre_model"
  by (auto simp: bind_io_Inr ret_def record_call_def lift_res_def split: option.splits)

lemma evaluate_model_keys:
  assumes "evaluate_model self model result_data w = (Inr result_data', w')"
  shows "\<exists>c. mf_candidates model = [c] \<and>
     map row_key result_data' = map row_key result_data @
       concat (map (\<lambda>(k, g). map (\<lambda>r. (name c, k, r_sequence r)) (sort_values_sequence g))
                 (groupby_id (df (test_data self))))"
proof -
  from dir_context_Inr [OF assms [unfolded evaluate_model_def Let_def]]
  obtain imp w1 pre_model w2 trained w3 res w4 where
    imp: "ModelImporter model (w\<lparr>cwd := mf_context model, sys_path := sys_path w @ [mf_context model]\<rparr>) = (Inr imp, w1)" and
    inst: "instantiate imp w1 = (Inr pre_model, w2)" and
    train: "(case train_data self of
      None \<Rightarrow> ret pre_model
    | Some train \<Rightarrow>
        bind_io (lift_res (training_data_dicts (df train))) (\<lambda>train_data_dicts.
        bind_io (record_call (Call_pre_train train_data_dicts)) (\<lambda>_.
        ret (pre_model\<lparr>state := pre_train pre_model train_data_dicts (state pre_model)\<rparr>)))) w2
     = (Inr trained, w3)" and
    loop: "for_each (groupby_id (df (test_data self))) (run_subject self trained) result_data w3
             = (Inr res, w4)" and
    res: "res = result_data'"
    by (auto simp: bind_io_Inr raise_error_def ret_def split: if_splits)
  from ModelImporter_Inr [OF imp] obtain c where
    c: "mf_candidates model = [c]" and imp_c: "imp_class imp = c" by auto
  have "name trained = name c"
    using pre_training_name [OF train] instantiate_Inr [OF inst] imp_c by simp
  with subject_loop_keys [OF loop] res c show ?thesis by simp
qed

lemma model_loop_keys:
  "for_each models (evaluate_model self) result_data w = (Inr result_data', w') \<Longrightarrow>
   map row_key result_data' = map row_key result_data @
     concat (map (\<lambda>model. concat (map (\<lambda>c.
         concat (map (\<lambda>(k, g). map (\<lambda>r. (name c, k, r_sequence r)) (sort_values_sequence g))
                   (groupby_id (df (test_data self)))))
       (mf_candidates model))) models)"
proof (induction models arbitrary: result_data w)
  case Nil
  then show ?case by (simp add: ret_def)
next
  case (Cons model models)
  from Cons.prems obtain res1 w1 where
    step: "evaluate_model self model result_data w = (Inr res1, w1)" and
    rest: "for_each models (evaluate_model self) res1 w1 = (Inr result_data', w')"
    by (auto simp: bind_io_Inr)
  from evaluate_model_keys [OF step] obtain c where
    c: "mf_candidates model = [c]" and
    k1: "map row_key res1 = map row_key result_data @
       concat (map (\<lambda>(k, g). map (\<lambda>r. (name c, k, r_sequence r)) (sort_values_sequence g))
                 (groupby_id (df (test_data self))))"
    by blast
  from Cons.IH [OF rest] k1 c show ?case by simp
qed


lemma trial_calls_start_no_participant:
  "started_ids (concat (map (trial_calls self subj_id) zs)) = []"
  by (induction zs) auto

lemma run_subject_started:
  assumes "run_subject self pre_model (subj_id, subj_df) result_data w = (Inr result_data', w')"
  shows "started_ids (calls w') = started_ids (calls w) @ [subj_id]"
    and "cwd w' = cwd w" and "sys_path w' = sys_path w" and "sys_modules w' = sys_modules w"
proof -
  from run_subject_Inr [OF assms] obtain pts where
    w': "w' = w\<lparr>calls := calls w @
            Call_start_participant subj_id (extract_demographics subj_df) #
            concat (map (trial_calls self subj_id) (zip (sort_values_sequence subj_df) pts))\<rparr>"
    by blast
  show "started_ids (calls w') = started_ids (calls w) @ [subj_id]"
    unfolding w' by (simp add: trial_calls_start_no_participant)
  show "cwd w' = cwd w" "sys_path w' = sys_path w" "sys_modules w' = sys_modules w"
    unfolding w' by simp_all
qed

lemma subject_loop_started:
  "for_each groups (run_subject self pre_model) result_data w = (Inr result_data', w') \<Longrightarrow>
   started_ids (calls w') = started_ids (calls w) @ map fst groups
   \<and> cwd w' = cwd w \<and> sys_path w' = sys_path w \<and> sys_modules w' = sys_modules w"
proof (induction groups arbitrary: result_data w)
  case Nil
  then show ?case by (simp add: ret_def)
next
  case (Cons kg groups)
  obtain k g where kg: "kg = (k, g)" by (cases kg)
  from Cons.prems kg obtain res1 w1 where
    step: "run_subject self pre_model (k, g) result_data w = (Inr res1, w1)" and
    rest: "for_each groups (run_subject self pre_model) res1 w1 = (Inr result_data', w')"
    by (auto simp: bind_io_Inr)
  from run_subject_started [OF step] Cons.IH [OF rest] kg show ?case by simp
qed

lemma evaluate_model_started:
  assumes "evaluate_model self model result_data w = (Inr result_data', w')"
  shows "started_ids (calls w') = started_ids (calls w) @ map fst (groupby_id (df (test_data self)))"
proof -
  from dir_context_Inr [OF assms [unfolded evaluate_model_def Let_def]]
  obtain imp w1 pre_model w2 trained w3 res w4 u w5 where
    imp: "ModelImporter model (w\<lparr>cwd := mf_context model, sys_path := sys_path w @ [mf_context model]\<rparr>) = (Inr imp, w1)" and
    inst: "instantiate imp w1 = (Inr pre_model, w2)" and
    train: "(case train_data self of
      None \<Rightarrow> ret pre_model
    | Some train \<Rightarrow>
        bind_io (lift_res (training_data_dicts (df train))) (\<lambda>train_data_dicts.
        bind_io (record_call (Call_pre_train train_data_dicts)) (\<lambda>_.
        ret (pre_model\<lparr>state := pre_train pre_model train_data_dicts (state pre_model)\<rparr>)))) w2
     = (Inr trained, w3)" and
    loop: "for_each (groupby_id (df (test_data self))) (run_subject self trained) result_data w3
             = (Inr res, w4)" and
    unimp: "unimport imp w4 = (Inr u, w5)" and
    w': "calls w' = calls w5"
    by (auto simp: bind_io_Inr raise_error_def ret_def split: if_splits)
  have 1: "started_ids (calls w1) = started_ids (calls w)"
    using imp by (auto simp: ModelImporter_def bind_io_Inr record_call_def Let_def split: list.splits)
  have 2: "started_ids (calls w2) = started_ids (calls w1)"
    using inst by (auto simp: instantiate_def bind_io_Inr record_call_def ret_def)
  have 3: "started_ids (calls w3) = started_ids (calls w2)"
    using train
    by (auto simp: bind_io_Inr ret_def record_call_def lift_res_def split: option.splits)
  have 5: "started_ids (calls w5) = started_ids (calls w4)"
    using unimp by (auto simp: unimport_def bind_io_Inr record_call_def)
  from subject_loop_started [OF loop] 1 2 3 5 w' show ?thesis by simp
qed

lemma model_loop_started:
  "for_each models (evaluate_model self) result_data w = (Inr result_data', w') \<Longrightarrow>
   started_ids (calls w') = started_ids (calls w) @
     concat (map (\<lambda>model. map fst (groupby_id (df (test_data self)))) models)"
proof (induction models arbitrary: result_data w)
  case Nil
  then show ?case by (simp add: ret_def)
next
  case (Cons model models)
  from Cons.prems obtain res1 w1 where
    step: "evaluate_model self model result_data w = (Inr res1, w1)" and
    rest: "for_each models (evaluate_model self) res1 w1 = (Inr result_data', w')"
    by (auto simp: bind_io_Inr)
  from evaluate_model_started [OF step] Cons.IH [OF rest] show ?case by simp
qed

lemma groupby_id_keys: "map fst (groupby_id table) = sorted_list_of_set (set (map r_id table))"
  unfolding groupby_id_def sorted_list_of_set_sort_remdups by (simp add: o_def)

lemma sort_values_sequence_keys:
  "map r_sequence (sort_values_sequence rows) = sort (map r_sequence rows)"
proof -
  have "mset (map r_sequence (sort_key r_sequence rows)) = mset (map r_sequence rows)"
    by simp
  moreover have "sorted (map r_sequence (sort_key r_sequence rows))"
    by (rule sorted_sort_key)
  ultimately show ?thesis
    unfolding sort_values_sequence_def by (rule properties_for_sort [symmetric])
qed

lemma group_keys:
  "concat (map (\<lambda>(k, g). map (\<lambda>r. (n, k, r_sequence r)) (sort_values_sequence g)) (groupby_id table))
   = concat (map (\<lambda>k. map (\<lambda>s. (n, k, s)) (sort (map r_sequence (filter (\<lambda>r. r_id r = k) table))))
       (sorted_list_of_set (set (map r_id table))))"
proof -
  have eq: "map (\<lambda>r. (n, k, r_sequence r)) (sort_values_sequence g)
          = map (\<lambda>s. (n, k, s)) (sort (map r_sequence g))" for k g
    using sort_values_sequence_keys [of g, symmetric] by (simp add: o_def)
  show ?thesis
    unfolding groupby_id_def sorted_list_of_set_sort_remdups by (simp add: o_def eq)
qed

section \<open>The order of subjects and of result rows\<close>

text \<open>
  Claim C4, as the code has it. The per-subject loop iterates \<^verbatim>\<open>groupby('id')\<close>, which
  yields the groups in ascending order of the identifier, not in the order in which the
  identifiers first occur in the table. For every run of \<open>evaluate\<close> that returns a
  table: for each model of the model list in turn, the participants are started in
  ascending order of the distinct identifiers of the test data, and the rows of the
  table follow model order, then ascending identifier, then ascending sequence.
\<close>

theorem result_rows_follow_sorted_subjects:
  assumes "evaluate self w = (Inr rows, w')"
  shows "[k. Call_start_participant k d \<leftarrow> calls w'] =
           [k. Call_start_participant k d \<leftarrow> calls w] @
           concat (map (\<lambda>model. sorted_list_of_set (set (map r_id (df (test_data self)))))
                     (modellist self))
       \<and> map (\<lambda>r. (rr_model r, rr_id r, rr_sequence r)) rows =
           concat (map (\<lambda>model. concat (map (\<lambda>c.
             concat (map (\<lambda>k. map (\<lambda>s. (name c, k, s))
                 (sort (map r_sequence (filter (\<lambda>r. r_id r = k) (df (test_data self))))))
               (sorted_list_of_set (set (map r_id (df (test_data self)))))))
             (mf_candidates model))) (modellist self))"
proof -
  from assms have loop:
    "for_each (modellist self) (evaluate_model self) [] w = (Inr rows, w')"
    by (simp add: evaluate_def)
  from model_loop_started [OF loop] model_loop_keys [OF loop]
  show ?thesis by (simp add: groupby_id_keys group_keys)
qed


text \<open>
  The claim as stated fails where the identifiers of the test file are not ascending:
  with the \<open>id\<close> column reading 2, 1 (first-occurrence order 2, 1) the rows of the
  result table are those of subject 1, then those of subject 2.
\<close>

theorem first_occurrence_order_counterexample:
  "unique (map r_id (df (test_data two_subjects))) = [2, 1]
   \<and> map_sum id (map rr_id) (fst (evaluate two_subjects world0)) = Inr [1, 2]"
  by (simp add: two_subjects_def input_defs engine_defs)

theorem result_rows_follow_sorted_subjects_witness:
  "\<exists>rows w'. evaluate two_subjects world0 = (Inr rows, w')
     \<and> [k. Call_start_participant k d \<leftarrow> calls w'] = [1, 2]
     \<and> map (\<lambda>r. (rr_model r, rr_id r, rr_sequence r)) rows = [(''echo'', 1, 1), (''echo'', 2, 1)]"
proof -
  obtain rows w' where h: "evaluate two_subjects world0 = (Inr rows, w')"
    by (simp add: two_subjects_def input_defs engine_defs)
  have t: "df (test_data two_subjects) = read_csv [trial 2 1 ''p'' ''a'', trial 1 1 ''q'' ''b'']"
    and m: "modellist two_subjects = [echo_file]"
    by (simp_all add: two_subjects_def Evaluator_init_def CCobraData_def)
  from result_rows_follow_sorted_subjects [OF h]
  have c: "[k. Call_start_participant k d \<leftarrow> calls w'] = [1, 2]
     \<and> map (\<lambda>r. (rr_model r, rr_id r, rr_sequence r)) rows = [(''echo'', 1, 1), (''echo'', 2, 1)]"
    unfolding t m by (simp add: input_defs)
  show ?thesis
    apply (rule exI [where x = rows])
    apply (rule exI [where x = w'])
    apply (rule conjI [OF h c])
    done
qed

section \<open>The directory context and the applicability check\<close>

lemma for_each_abort:
  "for_each pre body acc w = (Inr acc1, w1) \<Longrightarrow> body x acc1 w1 = (Inl e, w2) \<Longrightarrow>
   for_each (pre @ x # post) body acc w = (Inl e, w2)"
proof (induction pre arbitrary: acc w)
  case Nil
  then show ?case by (simp add: ret_def bind_io_def)
next
  case (Cons y pre)
  from Cons.prems(1) obtain acc' w' where
    step: "body y acc w = (Inr acc', w')" and
    rest: "for_each pre body acc' w' = (Inr acc1, w1)"
    by (auto simp: bind_io_Inr)
  from Cons.IH [OF rest Cons.prems(2)] step show ?case
    by (simp add: bind_io_def)
qed

lemma evaluate_model_no_directory:
  assumes "cwd w \<notin> set (dirs w) \<or> mf_context model \<notin> set (dirs w)"
  shows "evaluate_model self model result_data w = (Inl FileNotFoundError, w)"
  using assms by (simp add: evaluate_model_def Let_def dir_context_eq)

lemma evaluate_model_inapplicable:
  assumes "mf_candidates model = [c]"
    and "domains self - set (supported_domains c) \<noteq> {}
         \<or> response_types self - set (supported_response_types c) \<noteq> {}"
    and "cwd w \<in> set (dirs w)" and "mf_context model \<in> set (dirs w)"
  shows "evaluate_model self model result_data w =
     (Inl (if domains self - set (supported_domains c) \<noteq> {}
           then ValueError_domains (name c) (domains self - set (supported_domains c))
           else ValueError_response_types (name c)
                  (response_types self - set (supported_response_types c))),
      w\<lparr>sys_path := remove1 (mf_context model) (sys_path w @ [mf_context model]),
        sys_modules := List.insert (mf_path model) (sys_modules w),
        calls := calls w @ [Call_import (mf_path model), Call_instantiate (mf_path model)]\<rparr>)"
  using assms
  by (auto simp: evaluate_model_def dir_context_eq ModelImporter_def instantiate_def
      bind_io_def record_call_def ret_def raise_error_def Let_def)












text \<open>
  Claim C10. For a model whose applicability check fails, \<^verbatim>\<open>importer.unimport()\<close> is
  never called: the only calls made for it are the import and the instantiation, and
  the check's \<^verbatim>\<open>ValueError\<close> leaves \<open>evaluate_model\<close> through the directory context
  alone. The working directory is restored and the search-path entry taken off again,
  while the model's code unit stays in the module registry. (Where the directory
  context cannot be entered, \<open>evaluate_model\<close> raises before the import, and nothing is
  called at all.)
\<close>

theorem inapplicable_model_is_not_unimported:
  assumes "mf_candidates model = [c]"
    and "domains self - set (supported_domains c) \<noteq> {}
         \<or> response_types self - set (supported_response_types c) \<noteq> {}"
  shows "\<exists>e w'. evaluate_model self model result_data w = (Inl e, w')
     \<and> Call_unimport (mf_path model) \<notin> set (drop (length (calls w)) (calls w'))
     \<and> (if cwd w \<in> set (dirs w) \<and> mf_context model \<in> set (dirs w)
         then e = (if domains self - set (supported_domains c) \<noteq> {}
                   then ValueError_domains (name c) (domains self - set (supported_domains c))
                   else ValueError_response_types (name c)
                          (response_types self - set (supported_response_types c)))
           \<and> calls w' = calls w @ [Call_import (mf_path model), Call_instantiate (mf_path model)]
           \<and> mf_path model \<in> set (sys_modules w')
           \<and> cwd w' = cwd w
           \<and> sys_path w' = remove1 (mf_context model) (sys_path w @ [mf_context model])
           \<and> mset (sys_path w') = mset (sys_path w)
         else e = FileNotFoundError \<and> w' = w)"
proof (cases "cwd w \<in> set (dirs w) \<and> mf_context model \<in> set (dirs w)")
  case True
  then have d: "cwd w \<in> set (dirs w)" "mf_context model \<in> set (dirs w)" by simp_all
  show ?thesis
    unfolding evaluate_model_inapplicable [OF assms d] using True by simp
next
  case False
  then have "cwd w \<notin> set (dirs w) \<or> mf_context model \<notin> set (dirs w)" by simp
  from evaluate_model_no_directory [OF this] False show ?thesis by simp
qed

theorem inapplicable_model_is_not_unimported_witness:
  "mf_candidates picky_file = [picky_model]
   \<and> domains picky_first - set (supported_domains picky_model) = {''syllogistic''}
   \<and> cwd world0 \<in> set (dirs world0)
   \<and> mf_context picky_file \<in> set (dirs world0)
   \<and> evaluate_model picky_first picky_file [] world0 =
       (Inl (ValueError_domains ''picky'' {''syllogistic''}),
        world0\<lparr>sys_modules := [''/models/picky.py''],
               calls := [Call_import ''/models/picky.py'', Call_instantiate ''/models/picky.py'']\<rparr>)"
proof -
  have c: "mf_candidates picky_file = [picky_model]"
    by (simp add: picky_file_def)
  have d: "domains picky_first - set (supported_domains picky_model) = {''syllogistic''}"
    by (simp add: picky_first_def input_defs)
  then have n: "domains picky_first - set (supported_domains picky_model) \<noteq> {}
         \<or> response_types picky_first - set (supported_response_types picky_model) \<noteq> {}"
    by simp
  from inapplicable_model_is_not_unimported [OF c n, of "[]" world0] c d
  show ?thesis
    by (simp add: picky_first_def input_defs engine_defs)
qed

text \<open>
  Claim C3, as the code has it. Nothing in \<open>evaluate\<close> catches the \<^verbatim>\<open>ValueError\<close> of the
  applicability check, so the failure is fatal for the whole run: when the models before
  the failing one have been evaluated, \<open>evaluate\<close> raises the \<^verbatim>\<open>ValueError\<close> and
  returns no table (no row for the failing model, and none for the models before it),
  and the models after it are never loaded: the last calls made are the import and the
  instantiation of the failing model. (Where the directory context of the failing model
  cannot be entered, \<open>evaluate\<close> raises at that point already.)
\<close>

theorem inapplicable_model_aborts_the_run:
  assumes "modellist self = pre @ model # post"
    and "for_each pre (evaluate_model self) [] w = (Inr rows, w1)"
    and "mf_candidates model = [c]"
    and "domains self - set (supported_domains c) \<noteq> {}
         \<or> response_types self - set (supported_response_types c) \<noteq> {}"
  shows "evaluate self w =
     (if cwd w1 \<in> set (dirs w1) \<and> mf_context model \<in> set (dirs w1) then
        (Inl (if domains self - set (supported_domains c) \<noteq> {}
              then ValueError_domains (name c) (domains self - set (supported_domains c))
              else ValueError_response_types (name c)
                     (response_types self - set (supported_response_types c))),
         w1\<lparr>sys_path := remove1 (mf_context model) (sys_path w1 @ [mf_context model]),
            sys_modules := List.insert (mf_path model) (sys_modules w1),
            calls := calls w1 @ [Call_import (mf_path model), Call_instantiate (mf_path model)]\<rparr>)
      else (Inl FileNotFoundError, w1))"
proof (cases "cwd w1 \<in> set (dirs w1) \<and> mf_context model \<in> set (dirs w1)")
  case True
  then have d: "cwd w1 \<in> set (dirs w1)" "mf_context model \<in> set (dirs w1)" by simp_all
  show ?thesis
    unfolding evaluate_def assms(1) using True
    by (simp add: for_each_abort [OF assms(2) evaluate_model_inapplicable [OF assms(3) assms(4) d]])
next
  case False
  then have "cwd w1 \<notin> set (dirs w1) \<or> mf_context model \<notin> set (dirs w1)" by simp
  from for_each_abort [OF assms(2) evaluate_model_no_directory [OF this]] False
  show ?thesis
    unfolding evaluate_def assms(1) by simp
qed

text \<open>
  The claim as stated fails on a model list whose first model is not applicable: the run
  ends with the \<^verbatim>\<open>ValueError\<close>, and the second model, which alone yields a table of
  one row, is never imported.
\<close>

theorem later_models_still_run_counterexample:
  "modellist picky_first = [picky_file, echo_file]
   \<and> evaluate picky_first world0 =
       (Inl (ValueError_domains ''picky'' {''syllogistic''}),
        world0\<lparr>sys_modules := [''/models/picky.py''],
               calls := [Call_import ''/models/picky.py'', Call_instantiate ''/models/picky.py'']\<rparr>)
   \<and> map_sum id (map rr_model) (fst (evaluate (picky_first\<lparr>modellist := [echo_file]\<rparr>) world0))
       = Inr [''echo'']"
  by (simp add: picky_first_def input_defs engine_defs)

theorem inapplicable_model_aborts_the_run_witness:
  "modellist picky_second = [echo_file] @ picky_file # [echo_file]
   \<and> (\<exists>rows w1. for_each [echo_file] (evaluate_model picky_second) [] world0 = (Inr rows, w1)
         \<and> map rr_model rows = [''echo''])
   \<and> mf_candidates picky_file = [picky_model]
   \<and> domains picky_second - set (supported_domains picky_model) = {''syllogistic''}
   \<and> cwd world0 \<in> set (dirs world0)
   \<and> mf_context picky_file \<in> set (dirs world0)
   \<and> fst (evaluate picky_second world0) = Inl (ValueError_domains ''picky'' {''syllogistic''})
   \<and> calls (snd (evaluate picky_second world0)) =
       [Call_import ''/models/echo.py'', Call_instantiate ''/models/echo.py'',
        Call_start_participant 1 [],
        Call_predict (Item 1 ''syllogistic'' (PStr ''p'') ''single-choice'' (PStr ''yes|no'')) [],
        Call_compare PNone (PList [PList [PStr ''a'']]),
        Call_adapt (Item 1 ''syllogistic'' (PStr ''p'') ''single-choice'' (PStr ''yes|no''))
          (PList [PList [PStr ''a'']]) [],
        Call_unimport ''/models/echo.py'',
        Call_import ''/models/picky.py'', Call_instantiate ''/models/picky.py'']"
proof -
  have m: "modellist picky_second = [echo_file] @ picky_file # [echo_file]"
    by (simp add: picky_second_def Evaluator_init_def Let_def)
  obtain rows w1 where
    h: "for_each [echo_file] (evaluate_model picky_second) [] world0 = (Inr rows, w1)"
    and r: "map rr_model rows = [''echo'']"
    and w1: "w1 = world0\<lparr>calls :=
       [Call_import ''/models/echo.py'', Call_instantiate ''/models/echo.py'',
        Call_start_participant 1 [],
        Call_predict (Item 1 ''syllogistic'' (PStr ''p'') ''single-choice'' (PStr ''yes|no'')) [],
        Call_compare PNone (PList [PList [PStr ''a'']]),
        Call_adapt (Item 1 ''syllogistic'' (PStr ''p'') ''single-choice'' (PStr ''yes|no''))
          (PList [PList [PStr ''a'']]) [],
        Call_unimport ''/models/echo.py'']\<rparr>"
    by (simp add: picky_second_def input_defs engine_defs)
  have c: "mf_candidates picky_file = [picky_model]"
    by (simp add: picky_file_def)
  have d: "domains picky_second - set (supported_domains picky_model) = {''syllogistic''}"
    by (simp add: picky_second_def input_defs)
  then have n: "domains picky_second - set (supported_domains picky_model) \<noteq> {}
         \<or> response_types picky_second - set (supported_response_types picky_model) \<noteq> {}"
    by simp
  have e: "fst (evaluate picky_second world0) = Inl (ValueError_domains ''picky'' {''syllogistic''})"
    and f: "calls (snd (evaluate picky_second world0)) = calls w1 @
       [Call_import ''/models/picky.py'', Call_instantiate ''/models/picky.py'']"
    unfolding inapplicable_model_aborts_the_run [OF m h c n]
    using d by (simp_all add: w1 world0_def picky_model_def picky_file_def echo_model_def)
  have g: "\<exists>rows w1. for_each [echo_file] (evaluate_model picky_second) [] world0 = (Inr rows, w1)
         \<and> map rr_model rows = [''echo'']"
    by (rule exI [where x = rows], rule exI [where x = w1], rule conjI [OF h r])
  have k: "cwd world0 \<in> set (dirs world0)" "mf_context picky_file \<in> set (dirs world0)"
    by (simp_all add: world0_def picky_file_def)
  from m g c d e f k show ?thesis
    unfolding w1 by simp
qed

section \<open>The identity reconciler (lines 55-63)\<close>

lemma set_unique: "set (unique xs) = set xs"
  by (induction xs rule: unique.induct) auto

lemma distinct_unique: "distinct (unique xs)"
  by (induction xs rule: unique.induct) (auto simp: set_unique)

lemma length_unique: "length (unique xs) = card (set xs)"
  using distinct_card [OF distinct_unique, of xs] by (simp add: set_unique)

lemma read_csv_ids: "map r_id (read_csv table) = map r_id table"
proof -
  have "map (\<lambda>(i, r). r_id r) (enumerate n table) = map r_id table" for n
    by (induction table arbitrary: n) simp_all
  then show ?thesis
    by (simp add: read_csv_def o_def case_prod_unfold)
qed

lemma renumbering:
  fixes ids :: "int list" and start :: nat and f :: "int \<Rightarrow> int"
  assumes f_def: "f = (\<lambda>k. case map_of (new_ids (unique ids) start) k of Some n \<Rightarrow> n | None \<Rightarrow> k)"
  shows "map f (unique ids) = map int [start ..< start + card (set ids)]"
    and "bij_betw f (set ids) {int start ..< int (start + card (set ids))}"
proof -
  let ?u = "unique ids"
  let ?vals = "map int [start ..< start + length ?u]"
  have len: "length ?u = length ?vals" by simp
  have nth: "f (?u ! i) = ?vals ! i" if "i < length ?u" for i
    using map_of_zip_nth [OF len distinct_unique, of i] that
    by (simp add: f_def new_ids_def)
  have "map f ?u = ?vals"
    by (rule nth_equalityI) (simp_all add: nth)
  then show m: "map f (unique ids) = map int [start ..< start + card (set ids)]"
    by (simp add: length_unique)
  have "distinct (map f ?u)"
    unfolding m by (simp add: distinct_map inj_on_def)
  then have inj: "inj_on f (set ids)"
    by (simp add: distinct_map set_unique)
  have "f ` set ids = set (map f ?u)"
    by (simp add: set_unique)
  also have "\<dots> = int ` {start ..< start + card (set ids)}"
    unfolding m by simp
  also have "\<dots> = {int start ..< int (start + card (set ids))}"
    by (rule image_int_atLeastLessThan)
  finally show "bij_betw f (set ids) {int start ..< int (start + card (set ids))}"
    using inj by (simp add: bij_betw_def)
qed


text \<open>
  Claim C5. With a training file present and \<open>corresponding_data\<close> false, the
  constructor renumbers the identifiers of both tables: the \<open>T\<close> distinct training
  identifiers are mapped one-to-one onto \<open>0, ..., T - 1\<close> and the \<open>S\<close> distinct test
  identifiers one-to-one onto \<open>T, ..., T + S - 1\<close>, each in the order in which the
  identifiers first occur in the table's \<open>id\<close> column; no other cell changes, and the
  two ranges of new identifiers do not intersect.
\<close>

theorem reconciler_renumbers:
  assumes "self = Evaluator_init models eval_comparator to_string test (Some train) is_silent False"
    and "T = card (set (map r_id train))"
    and "S = card (set (map r_id test))"
  shows "\<exists>f g train'.
       train_data self = Some train'
     \<and> df train' = map (\<lambda>r. r\<lparr>r_id := f (r_id r)\<rparr>) (read_csv train)
     \<and> df (test_data self) = map (\<lambda>r. r\<lparr>r_id := g (r_id r)\<rparr>) (read_csv test)
     \<and> bij_betw f (set (map r_id train)) {0 ..< int T}
     \<and> bij_betw g (set (map r_id test)) {int T ..< int (T + S)}
     \<and> map f (unique (map r_id train)) = map int [0 ..< T]
     \<and> map g (unique (map r_id test)) = map int [T ..< T + S]
     \<and> set (map r_id (df train')) = {0 ..< int T}
     \<and> set (map r_id (df (test_data self))) = {int T ..< int (T + S)}
     \<and> set (map r_id (df train')) \<inter> set (map r_id (df (test_data self))) = {}"
proof -
  define f where "f = (\<lambda>k. case map_of (new_ids (unique (map r_id train)) 0) k of
      Some n \<Rightarrow> n | None \<Rightarrow> k)"
  define g where "g = (\<lambda>k. case map_of (new_ids (unique (map r_id test)) T) k of
      Some n \<Rightarrow> n | None \<Rightarrow> k)"
  define train' where "train' = (CCobraData (read_csv train))
      \<lparr>df := map (\<lambda>r. r\<lparr>r_id := f (r_id r)\<rparr>) (read_csv train)\<rparr>"
  have T: "length (unique (map r_id train)) = T"
    by (simp add: length_unique assms(2))
  have a: "train_data self = Some train'"
    by (simp add: assms(1) Evaluator_init_def Let_def train'_def f_def replace_id_def
        CCobraData_def read_csv_ids)
  have b: "df train' = map (\<lambda>r. r\<lparr>r_id := f (r_id r)\<rparr>) (read_csv train)"
    by (simp add: train'_def)
  have c: "df (test_data self) = map (\<lambda>r. r\<lparr>r_id := g (r_id r)\<rparr>) (read_csv test)"
    by (simp add: assms(1) Evaluator_init_def Let_def g_def replace_id_def
        CCobraData_def read_csv_ids T)
  have d: "bij_betw f (set (map r_id train)) {0 ..< int T}"
    using renumbering(2) [OF f_def] by (simp add: assms(2))
  have e: "bij_betw g (set (map r_id test)) {int T ..< int (T + S)}"
    using renumbering(2) [OF g_def] by (simp add: assms(3))
  have m: "map f (unique (map r_id train)) = map int [0 ..< T]"
    using renumbering(1) [OF f_def] by (simp add: assms(2))
  have n: "map g (unique (map r_id test)) = map int [T ..< T + S]"
    using renumbering(1) [OF g_def] by (simp add: assms(3))
  have "map r_id (df train') = map f (map r_id (read_csv train))"
    unfolding b by (simp add: o_def)
  then have "map r_id (df train') = map f (map r_id train)"
    by (simp only: read_csv_ids)
  then have "set (map r_id (df train')) = f ` set (map r_id train)"
    by (simp only: set_map)
  then have p: "set (map r_id (df train')) = {0 ..< int T}"
    using d by (simp add: bij_betw_def)
  have "map r_id (df (test_data self)) = map g (map r_id (read_csv test))"
    unfolding c by (simp add: o_def)
  then have "map r_id (df (test_data self)) = map g (map r_id test)"
    by (simp only: read_csv_ids)
  then have "set (map r_id (df (test_data self))) = g ` set (map r_id test)"
    by (simp only: set_map)
  then have q: "set (map r_id (df (test_data self))) = {int T ..< int (T + S)}"
    using e by (simp add: bij_betw_def)
  have r: "set (map r_id (df train')) \<inter> set (map r_id (df (test_data self))) = {}"
    unfolding p q by auto
  show ?thesis
    apply (rule exI [where x = f])
    apply (rule exI [where x = g])
    apply (rule exI [where x = train'])
    apply (intro conjI)
    apply (rule a b c d e m n p q r)+
    done
qed

theorem reconciler_renumbers_witness:
  "map r_id (read_csv [trial 5 1 ''r'' ''a'', trial 3 1 ''s'' ''b'', trial 5 2 ''t'' ''c'']) = [5, 3, 5]
   \<and> map r_id (read_csv [trial 5 1 ''p'' ''a'', trial 9 1 ''q'' ''b'']) = [5, 9]
   \<and> map_option (\<lambda>d. map r_id (df d)) (train_data shared_id) = Some [0, 1, 0]
   \<and> map r_id (df (test_data shared_id)) = [2, 3]"
  using reconciler_renumbers [OF shared_id_def refl refl]
  by (simp add: shared_id_def input_defs Let_def)

section \<open>The order of a subject's trials\<close>

text \<open>
  Claim C6. The trials of a subject are processed in ascending order of the \<open>sequence\<close>
  column: whenever the subject's loop returns, the trials it went through are the
  subject's rows arranged by ascending \<open>sequence\<close>; each trial is predicted, scored and
  adapted, in this order, before the next trial is predicted; and the rows appended to
  the result table carry the ascending sequence values. For a subject whose two trials
  read 2, 1 in table order, the trial with sequence 1 comes first.
\<close>

theorem trials_in_ascending_sequence:
  assumes "run_subject self pre_model (subj_id, subj_df) result_data w = (Inr result_data', w')"
  shows "map rr_sequence (drop (length result_data) result_data') = sort (map r_sequence subj_df)
     \<and> (\<exists>trials pts.
           mset trials = mset subj_df
         \<and> sorted (map r_sequence trials)
         \<and> length pts = length trials
         \<and> result_data' = result_data @
              map (trial_result self (name pre_model) subj_id) (zip trials pts)
         \<and> calls w' = calls w @
              Call_start_participant subj_id (extract_demographics subj_df) #
              concat (map (trial_calls self subj_id) (zip trials pts)))"
proof -
  let ?trials = "sort_values_sequence subj_df"
  from run_subject_Inr [OF assms] obtain pts where
    len: "length pts = length subj_df" and
    res: "result_data' = result_data @
            map (trial_result self (name pre_model) subj_id) (zip ?trials pts)" and
    w': "w' = w\<lparr>calls := calls w @
            Call_start_participant subj_id (extract_demographics subj_df) #
            concat (map (trial_calls self subj_id) (zip ?trials pts))\<rparr>"
    by blast
  have a: "mset ?trials = mset subj_df"
    by (simp add: sort_values_sequence_def)
  have b: "sorted (map r_sequence ?trials)"
    unfolding sort_values_sequence_def by (rule sorted_sort_key)
  have c: "length pts = length ?trials"
    using len by (simp add: sort_values_sequence_def)
  have d: "calls w' = calls w @
              Call_start_participant subj_id (extract_demographics subj_df) #
              concat (map (trial_calls self subj_id) (zip ?trials pts))"
    unfolding w' by simp
  have "map rr_sequence (map (trial_result self n subj_id) (zip trials pts)) = map r_sequence trials"
    if "length pts = length trials" for trials n
    using that by (induction trials pts rule: list_induct2') auto
  from this [OF c] res have e:
    "map rr_sequence (drop (length result_data) result_data') = sort (map r_sequence subj_df)"
    by (simp add: sort_values_sequence_keys)
  show ?thesis
    apply (rule conjI [OF e])
    apply (rule exI [where x = ?trials])
    apply (rule exI [where x = pts])
    apply (intro conjI)
    apply (rule a b c res d)+
    done
qed

theorem trials_in_ascending_sequence_witness:
  "map r_sequence (df (test_data scenario_A)) = [2, 1]
   \<and> map r_task (df (test_data scenario_A)) = [PStr ''second'', PStr ''first'']
   \<and> (\<exists>rows w'.
         run_subject scenario_A echo_model (1, df (test_data scenario_A)) [] world0 = (Inr rows, w')
       \<and> map rr_sequence rows = [1, 2]
       \<and> calls w' =
           [Call_start_participant 1 [],
            Call_predict (Item 1 ''syllogistic'' (PStr ''first'') ''single-choice'' (PStr ''yes|no'')) [],
            Call_compare PNone (PList [PList [PStr ''a'']]),
            Call_adapt (Item 1 ''syllogistic'' (PStr ''first'') ''single-choice'' (PStr ''yes|no''))
              (PList [PList [PStr ''a'']]) [],
            Call_predict (Item 1 ''syllogistic'' (PStr ''second'') ''single-choice'' (PStr ''yes|no'')) [],
            Call_compare (PList [PList [PStr ''a'']]) (PList [PList [PStr ''b'']]),
            Call_adapt (Item 1 ''syllogistic'' (PStr ''second'') ''single-choice'' (PStr ''yes|no''))
              (PList [PList [PStr ''b'']]) []])"
proof -
  have s: "map r_sequence (df (test_data scenario_A)) = [2, 1]"
    and t: "map r_task (df (test_data scenario_A)) = [PStr ''second'', PStr ''first'']"
    by (simp_all add: scenario_A_def input_defs Let_def)
  obtain rows w' where
    h: "run_subject scenario_A echo_model (1, df (test_data scenario_A)) [] world0 = (Inr rows, w')"
    and c: "calls w' =
           [Call_start_participant 1 [],
            Call_predict (Item 1 ''syllogistic'' (PStr ''first'') ''single-choice'' (PStr ''yes|no'')) [],
            Call_compare PNone (PList [PList [PStr ''a'']]),
            Call_adapt (Item 1 ''syllogistic'' (PStr ''first'') ''single-choice'' (PStr ''yes|no''))
              (PList [PList [PStr ''a'']]) [],
            Call_predict (Item 1 ''syllogistic'' (PStr ''second'') ''single-choice'' (PStr ''yes|no'')) [],
            Call_compare (PList [PList [PStr ''a'']]) (PList [PList [PStr ''b'']]),
            Call_adapt (Item 1 ''syllogistic'' (PStr ''second'') ''single-choice'' (PStr ''yes|no''))
              (PList [PList [PStr ''b'']]) []]"
    by (simp add: scenario_A_def input_defs engine_defs)
  from trials_in_ascending_sequence [OF h, THEN conjunct1]
  have r: "map rr_sequence rows = [1, 2]"
    unfolding s by simp
  show ?thesis
    apply (rule conjI [OF s])
    apply (rule conjI [OF t])
    apply (rule exI [where x = rows])
    apply (rule exI [where x = w'])
    apply (intro conjI)
    apply (rule h r c)+
    done
qed

section \<open>Training records\<close>

text \<open>
  What a training record holds (lines 119-129), for every row: the group's identifier,
  the row's index label under \<open>sequence\<close>, the item, and every cell of the row whose
  column is none of \<open>id\<close>, \<open>sequence\<close>, \<open>item\<close>, as the row has it (the response is
  then decoded).
\<close>

lemma map_of_dict_set:
  "map_of (dict_set d key v) k = (if k = key then Some v else map_of d k)"
proof (cases "key \<in> fst ` set d")
  case True
  have "map_of (map (\<lambda>(k, old). if k = key then (k, v) else (k, old)) d) k
          = (if k = key then (if key \<in> fst ` set d then Some v else None) else map_of d k)"
    by (induction d) (auto split: if_splits)
  with True show ?thesis by (simp add: dict_set_def)
next
  case False
  then have "map_of d key = None"
    by (simp add: map_of_eq_None_iff)
  with False show ?thesis
    by (auto simp: dict_set_def map_add_def split: option.splits)
qed

lemma map_of_merge:
  "map_of (foldl (\<lambda>d (key, v). if key \<notin> fst ` set d then dict_set d key v else d) d0 cells) k
     = (case map_of d0 k of Some v \<Rightarrow> Some v | None \<Rightarrow> map_of cells k)"
proof (induction cells arbitrary: d0)
  case Nil
  then show ?case by (simp split: option.splits)
next
  case (Cons c cells)
  obtain key v where c: "c = (key, v)" by (cases c)
  show ?case
  proof (cases "key \<in> fst ` set d0")
    case True
    then obtain u where "map_of d0 key = Some u"
      by (metis map_of_eq_None_iff not_Some_eq)
    with True c Cons.IH [of d0] show ?thesis
      by (auto split: option.splits)
  next
    case False
    then have "map_of d0 key = None"
      by (simp add: map_of_eq_None_iff)
    with False c Cons.IH [of "dict_set d0 key v"] show ?thesis
      by (auto simp: map_of_dict_set split: option.splits)
  qed
qed

lemma training_record_entries:
  assumes "training_record id_info r = Inr d"
  shows "map_of d ''id'' = Some (PInt id_info)"
    and "map_of d ''sequence'' = Some (PInt (int (label r)))"
    and "map_of d ''item'' =
           Some (Item id_info (r_domain r) (r_task r) (r_response_type r) (r_choices r))"
    and "key \<notin> {''id'', ''sequence'', ''item'', ''response''} \<Longrightarrow>
           map_of d key = map_of (iteritems r) key"
  using assms
  by (auto simp: training_record_def Let_def bind_res_def dict_get_def map_of_merge
      map_of_dict_set split: option.splits if_splits sum.splits)

text \<open>
  Claim C2. The \<open>sequence\<close> entry of a training record is to equal the row's value in
  the \<open>sequence\<close> column. The source stores under \<open>sequence\<close> the first component of
  what \<^verbatim>\<open>iterrows()\<close> yields, which is the row's index label, and the merge of the
  row's cells then skips the \<open>sequence\<close> column because the key is already set. For a
  training file of one row whose \<open>sequence\<close> is 5 the record's entry is the label 0.
\<close>

theorem training_sequence_is_the_row_label:
  "map r_sequence (read_csv [trial 7 5 ''t'' ''a;b/c'']) = [5]
   \<and> map_sum id (map (map (\<lambda>d. map_of d ''sequence'')))
        (training_data_dicts (read_csv [trial 7 5 ''t'' ''a;b/c''])) = Inr [[Some (PInt 0)]]"
  by code_simp

end
